theory Spec2Isabelle
  imports Main "HOL-Library.Sublist"
begin

section \<open>JavaScript strings and arrays\<close>

text \<open>
  A JavaScript string is modelled as the list of its code units, restricted to the units
  below 256 (\<^typ>\<open>string\<close>). The helpers below are the string and array methods the
  sources call, with the results ECMAScript gives them.
\<close>

fun startsWith :: "string \<Rightarrow> string \<Rightarrow> bool" where
  "startsWith s [] = True"
| "startsWith [] (p # ps) = False"
| "startsWith (c # cs) (p # ps) = (c = p \<and> startsWith cs ps)"

definition endsWith :: "string \<Rightarrow> string \<Rightarrow> bool" where
  "endsWith s p = startsWith (rev s) (rev p)"

fun includes_str :: "string \<Rightarrow> string \<Rightarrow> bool" where
  "includes_str [] sub = (sub = [])"
| "includes_str (c # cs) sub = (startsWith (c # cs) sub \<or> includes_str cs sub)"

text \<open>White space as \<open>String.prototype.trim\<close> and the regular expression class
  \<open>\s\<close> see it (tab, line feed, vertical tab, form feed, carriage return, space and the
  no-break space), and the line terminators that \<open>^\<close> and \<open>$\<close> look at under the
  \<open>m\<close> flag.\<close>

definition isWhiteSpace :: "char \<Rightarrow> bool" where
  "isWhiteSpace c = (c \<in> set [CHR 0x09, CHR 0x0A, CHR 0x0B, CHR 0x0C, CHR 0x0D, CHR 0x20, CHR 0xA0])"

definition isLineTerminator :: "char \<Rightarrow> bool" where
  "isLineTerminator c = (c = CHR 0x0A \<or> c = CHR 0x0D)"

definition trim :: "string \<Rightarrow> string" where
  "trim s = rev (dropWhile isWhiteSpace (rev (dropWhile isWhiteSpace s)))"

fun split_on :: "char \<Rightarrow> string \<Rightarrow> string list" where
  "split_on c [] = [[]]"
| "split_on c (x # xs) =
     (if x = c then [] # split_on c xs
      else (case split_on c xs of [] \<Rightarrow> [[x]] | p # ps \<Rightarrow> (x # p) # ps))"

fun join :: "string \<Rightarrow> string list \<Rightarrow> string" where
  "join sep [] = []"
| "join sep [x] = x"
| "join sep (x # y # ys) = x @ sep @ join sep (y # ys)"

text \<open>\<open>Array.prototype.indexOf\<close> answers \<open>-1\<close> for an absent element, and
  \<open>slice(start)\<close> counts a negative start from the end.\<close>

fun indexOf :: "'a list \<Rightarrow> 'a \<Rightarrow> int" where
  "indexOf [] a = - 1"
| "indexOf (x # xs) a = (if x = a then 0 else (let i = indexOf xs a in if i < 0 then - 1 else i + 1))"

definition slice_from :: "'a list \<Rightarrow> int \<Rightarrow> 'a list" where
  "slice_from xs start =
     (if start < 0 then drop (nat (max (int (length xs) + start) 0)) xs else drop (nat start) xs)"

text \<open>A \<open>Set\<close> keeps its members in insertion order; \<open>add\<close> of a member already
  present changes nothing.\<close>

definition set_add :: "'a list \<Rightarrow> 'a \<Rightarrow> 'a list" where
  "set_add xs x = (if x \<in> set xs then xs else xs @ [x])"

section \<open>The platform: URL objects\<close>

text \<open>
  \<open>new URL(input, base)\<close> belongs to the platform, not to the repository. It is a
  parameter of every function that calls it: it answers \<open>None\<close> where the constructor
  throws, and otherwise the object's \<open>href\<close> and \<open>pathname\<close>.
\<close>

record url =
  href :: string
  pathname :: string

type_synonym url_ctor = "string \<Rightarrow> string option \<Rightarrow> url option"

section \<open>scraper.ts: resolveUrl\<close>

definition resolveUrl :: "url_ctor \<Rightarrow> string \<Rightarrow> string \<Rightarrow> string" where
  "resolveUrl newURL baseUrl u =
     (if u = [] then []
      else if startsWith u ''data:'' then []
      else if includes_str u ''local-credentialless.webcontainer-api.io'' then
        (let urlParts = split_on CHR ''/'' u;
             assetPath = join ''/'' (slice_from urlParts (indexOf urlParts ''assets''))
         in case newURL assetPath (Some baseUrl) of None \<Rightarrow> [] | Some r \<Rightarrow> href r)
      else if startsWith u ''http://'' \<or> startsWith u ''https://'' then u
      else if startsWith u ''//'' then ''https:'' @ u
      else (case newURL u (Some baseUrl) of None \<Rightarrow> [] | Some r \<Rightarrow> href r))"

section \<open>ai.ts: cleanGeneratedCode\<close>

text \<open>
  \<open>code.replace(/^```(html)?/gm, '')\<close>: the flag says whether the position is the start
  of a line. After a match the scan goes on behind it, where no line starts.
\<close>

function strip_open_fence :: "bool \<Rightarrow> string \<Rightarrow> string" where
  "strip_open_fence b [] = []"
| "strip_open_fence b (c # cs) =
     (if b \<and> startsWith (c # cs) ''```'' then
        strip_open_fence False
          (if startsWith (drop 2 cs) ''html'' then drop 6 cs else drop 2 cs)
      else c # strip_open_fence (isLineTerminator c) cs)"
  by pat_completeness auto
termination
  by (relation "measure (\<lambda>(b, s). length s)") auto

text \<open>\<open>.replace(/```$/gm, '')\<close>: three backticks that end a line or the text.\<close>

function strip_close_fence :: "string \<Rightarrow> string" where
  "strip_close_fence [] = []"
| "strip_close_fence (c # cs) =
     (if startsWith (c # cs) ''```'' \<and> (drop 2 cs = [] \<or> isLineTerminator (hd (drop 2 cs)))
      then strip_close_fence (drop 2 cs)
      else c # strip_close_fence cs)"
  by pat_completeness auto
termination
  by (relation "measure length") auto

text \<open>\<open>.replace(/^`|`$/g, '')\<close>, without the \<open>m\<close> flag: one backtick at the very
  start, and one at the very end of what is left.\<close>

definition strip_backticks :: "string \<Rightarrow> string" where
  "strip_backticks s =
     (let s1 = (if startsWith s ''`'' then tl s else s)
      in if endsWith s1 ''`'' then butlast s1 else s1)"

definition cleanGeneratedCode :: "string \<Rightarrow> string" where
  "cleanGeneratedCode code = trim (strip_backticks (strip_close_fence (strip_open_fence True code)))"

section \<open>types/database.ts: the style profile\<close>

record button_style =
  btn_backgroundColor :: string
  btn_color :: string
  btn_padding :: string
  btn_borderRadius :: string

record header_style =
  hdr_fontFamily :: string
  hdr_fontSize :: string
  hdr_fontWeight :: string
  hdr_color :: string

record layout_tokens =
  maxWidth :: string
  containerPadding :: string
  gridGap :: string

record style_tokens =
  spacing :: "string list"
  borderRadius :: "string list"
  layout :: layout_tokens
  buttonStyles :: "button_style list"
  headerStyles :: "header_style list"
  gradients :: "string list"
  shadows :: "string list"

text \<open>An optional field of \<open>WebsiteStyle\<close> is an option; \<open>None\<close> is \<open>undefined\<close>
  (or \<open>null\<close>, which the code never tells apart from it).\<close>

record WebsiteStyle =
  colors :: "string list option"
  fonts :: "string list option"
  images :: "string list option"
  logo :: "string option"
  metaDescription :: "string option"
  headings :: "string list option"
  styles :: style_tokens

section \<open>ai.ts: the fallback template\<close>

text \<open>\<open>v || d\<close> on an optional string: the default replaces \<open>undefined\<close> and the
  empty string. \<open>xs?.[i]\<close> is \<open>undefined\<close> out of range.\<close>

definition or_else :: "string option \<Rightarrow> string \<Rightarrow> string" where
  "or_else v d = (case v of None \<Rightarrow> d | Some s \<Rightarrow> if s = [] then d else s)"

definition nth_opt :: "'a list \<Rightarrow> nat \<Rightarrow> 'a option" where
  "nth_opt xs i = (if i < length xs then Some (xs ! i) else None)"

definition digit_char :: "nat \<Rightarrow> char" where
  "digit_char d = char_of (of_char CHR ''0'' + d)"

fun show_nat :: "nat \<Rightarrow> string" where
  "show_nat n = (if n < 10 then [digit_char n] else show_nat (n div 10) @ [digit_char (n mod 10)])"

text \<open>The literal parts of the template, in the order of the source text; the
  interpolated values stand between them.\<close>

definition tpl_1 :: string where
  \<open>tpl_1 =
     ''\<newline>'' @
     ''<!DOCTYPE html>\<newline>'' @
     ''<html lang="en">\<newline>'' @
     ''<head>\<newline>'' @
     ''    <meta charset="UTF-8">\<newline>'' @
     ''    <meta name="viewport" content="width=device-width, initial-scale=1.0">\<newline>'' @
     ''    <meta name="description" content="''\<close>

definition tpl_2 :: string where
  \<open>tpl_2 =
     ''">\<newline>'' @
     ''    <title>Welcome | Landing Page</title>\<newline>'' @
     ''    <style>\<newline>'' @
     ''        :root {\<newline>'' @
     ''            --primary-color: ''\<close>

definition tpl_3 :: string where
  \<open>tpl_3 =
     '';\<newline>'' @
     ''            --text-color: ''\<close>

definition tpl_4 :: string where
  \<open>tpl_4 =
     '';\<newline>'' @
     ''            --bg-color: ''\<close>

definition tpl_5 :: string where
  \<open>tpl_5 =
     '';\<newline>'' @
     ''        }\<newline>'' @
     ''        \<newline>'' @
     ''        * {\<newline>'' @
     ''            margin: 0;\<newline>'' @
     ''            padding: 0;\<newline>'' @
     ''            box-sizing: border-box;\<newline>'' @
     ''        }\<newline>'' @
     ''        \<newline>'' @
     ''        html {\<newline>'' @
     ''            scroll-behavior: smooth;\<newline>'' @
     ''        }\<newline>'' @
     ''        \<newline>'' @
     ''        body {\<newline>'' @
     ''            margin: 0;\<newline>'' @
     ''            font-family: ''\<close>

definition tpl_6 :: string where
  \<open>tpl_6 =
     '';\<newline>'' @
     ''            color: var(--text-color);\<newline>'' @
     ''            background-color: var(--bg-color);\<newline>'' @
     ''            line-height: 1.5;\<newline>'' @
     ''        }\<newline>'' @
     ''        \<newline>'' @
     ''        .container {\<newline>'' @
     ''            max-width: ''\<close>

definition tpl_7 :: string where
  \<open>tpl_7 =
     '';\<newline>'' @
     ''            margin: 0 auto;\<newline>'' @
     ''            padding: ''\<close>

definition tpl_8 :: string where
  \<open>tpl_8 =
     '';\<newline>'' @
     ''        }\<newline>'' @
     ''        \<newline>'' @
     ''        .hero {\<newline>'' @
     ''            min-height: 80vh;\<newline>'' @
     ''            display: flex;\<newline>'' @
     ''            align-items: center;\<newline>'' @
     ''            text-align: center;\<newline>'' @
     ''            padding: 4rem 2rem;\<newline>'' @
     ''            background: ''\<close>

definition tpl_9 :: string where
  \<open>tpl_9 =
     '';\<newline>'' @
     ''        }\<newline>'' @
     ''        \<newline>'' @
     ''        .hero h1 {\<newline>'' @
     ''            font-size: clamp(2rem, 5vw, ''\<close>

definition tpl_10 :: string where
  \<open>tpl_10 =
     '');\<newline>'' @
     ''            font-weight: ''\<close>

definition tpl_11 :: string where
  \<open>tpl_11 =
     '';\<newline>'' @
     ''            color: ''\<close>

definition tpl_12 :: string where
  \<open>tpl_12 =
     '';\<newline>'' @
     ''            margin-bottom: 1.5rem;\<newline>'' @
     ''            line-height: 1.2;\<newline>'' @
     ''        }\<newline>'' @
     ''        \<newline>'' @
     ''        .hero p {\<newline>'' @
     ''            font-size: clamp(1rem, 2.5vw, 1.25rem);\<newline>'' @
     ''            margin-bottom: 2rem;\<newline>'' @
     ''            max-width: 600px;\<newline>'' @
     ''            margin-left: auto;\<newline>'' @
     ''            margin-right: auto;\<newline>'' @
     ''        }\<newline>'' @
     ''        \<newline>'' @
     ''        .button {\<newline>'' @
     ''            display: inline-block;\<newline>'' @
     ''            background-color: ''\<close>

definition tpl_13 :: string where
  \<open>tpl_13 =
     '';\<newline>'' @
     ''            color: ''\<close>

definition tpl_14 :: string where
  \<open>tpl_14 =
     '';\<newline>'' @
     ''            padding: ''\<close>

definition tpl_15 :: string where
  \<open>tpl_15 =
     '';\<newline>'' @
     ''            border-radius: ''\<close>

definition tpl_16 :: string where
  \<open>tpl_16 =
     '';\<newline>'' @
     ''            text-decoration: none;\<newline>'' @
     ''            transition: all 0.3s ease;\<newline>'' @
     ''            box-shadow: ''\<close>

definition tpl_17 :: string where
  \<open>tpl_17 =
     '';\<newline>'' @
     ''        }\<newline>'' @
     ''        \<newline>'' @
     ''        .button:hover {\<newline>'' @
     ''            transform: translateY(-2px);\<newline>'' @
     ''            box-shadow: ''\<close>

definition tpl_18 :: string where
  \<open>tpl_18 =
     '';\<newline>'' @
     ''        }\<newline>'' @
     ''        \<newline>'' @
     ''        .logo {\<newline>'' @
     ''            max-width: 200px;\<newline>'' @
     ''            margin-bottom: 2rem;\<newline>'' @
     ''            animation: fadeIn 1s ease-out;\<newline>'' @
     ''        }\<newline>'' @
     ''        \<newline>'' @
     ''        .features {\<newline>'' @
     ''            display: grid;\<newline>'' @
     ''            grid-template-columns: repeat(auto-fit, minmax(300px, 1fr));\<newline>'' @
     ''            gap: ''\<close>

definition tpl_19 :: string where
  \<open>tpl_19 =
     '';\<newline>'' @
     ''            padding: 4rem 0;\<newline>'' @
     ''        }\<newline>'' @
     ''        \<newline>'' @
     ''        .feature {\<newline>'' @
     ''            text-align: center;\<newline>'' @
     ''            padding: 2rem;\<newline>'' @
     ''            background: white;\<newline>'' @
     ''            border-radius: ''\<close>

definition tpl_20 :: string where
  \<open>tpl_20 =
     '';\<newline>'' @
     ''            box-shadow: ''\<close>

definition tpl_21 :: string where
  \<open>tpl_21 =
     '';\<newline>'' @
     ''            transition: transform 0.3s ease;\<newline>'' @
     ''        }\<newline>'' @
     ''        \<newline>'' @
     ''        .feature:hover {\<newline>'' @
     ''            transform: translateY(-5px);\<newline>'' @
     ''        }\<newline>'' @
     ''        \<newline>'' @
     ''        .feature img {\<newline>'' @
     ''            width: 100%;\<newline>'' @
     ''            max-width: 300px;\<newline>'' @
     ''            height: 200px;\<newline>'' @
     ''            object-fit: cover;\<newline>'' @
     ''            border-radius: ''\<close>

definition tpl_22 :: string where
  \<open>tpl_22 =
     '';\<newline>'' @
     ''            margin-bottom: 1.5rem;\<newline>'' @
     ''        }\<newline>'' @
     ''        \<newline>'' @
     ''        @keyframes fadeIn {\<newline>'' @
     ''            from { opacity: 0; transform: translateY(20px); }\<newline>'' @
     ''            to { opacity: 1; transform: translateY(0); }\<newline>'' @
     ''        }\<newline>'' @
     ''        \<newline>'' @
     ''        @media (max-width: 768px) {\<newline>'' @
     ''            .hero {\<newline>'' @
     ''                min-height: 60vh;\<newline>'' @
     ''                padding: 2rem 1rem;\<newline>'' @
     ''            }\<newline>'' @
     ''            .features {\<newline>'' @
     ''                grid-template-columns: 1fr;\<newline>'' @
     ''                gap: 1.5rem;\<newline>'' @
     ''                padding: 2rem 0;\<newline>'' @
     ''            }\<newline>'' @
     ''        }\<newline>'' @
     ''    </style>\<newline>'' @
     ''</head>\<newline>'' @
     ''<body>\<newline>'' @
     ''    <div class="hero">\<newline>'' @
     ''        <div class="container">\<newline>'' @
     ''            ''\<close>

definition tpl_23 :: string where
  \<open>tpl_23 =
     ''\<newline>'' @
     ''            <h1>''\<close>

definition tpl_24 :: string where
  \<open>tpl_24 =
     ''</h1>\<newline>'' @
     ''            <p>''\<close>

definition tpl_25 :: string where
  \<open>tpl_25 =
     ''</p>\<newline>'' @
     ''            <a href="#contact" class="button">Get Started</a>\<newline>'' @
     ''        </div>\<newline>'' @
     ''    </div>\<newline>'' @
     ''    \<newline>'' @
     ''    <div class="container">\<newline>'' @
     ''        <div class="features">\<newline>'' @
     ''            ''\<close>

definition tpl_26 :: string where
  \<open>tpl_26 =
     ''\<newline>'' @
     ''        </div>\<newline>'' @
     ''    </div>\<newline>'' @
     ''</body>\<newline>'' @
     ''</html>''\<close>

definition tpl_feature_1 :: string where
  \<open>tpl_feature_1 =
     ''\<newline>'' @
     ''            <div class="feature">\<newline>'' @
     ''                <img src="''\<close>

definition tpl_feature_2 :: string where
  \<open>tpl_feature_2 =
     ''" alt="Feature ''\<close>

definition tpl_feature_3 :: string where
  \<open>tpl_feature_3 =
     ''" loading="lazy">\<newline>'' @
     ''                <h3>''\<close>

definition tpl_feature_4 :: string where
  \<open>tpl_feature_4 =
     ''</h3>\<newline>'' @
     ''                <p>Experience the power of innovation with our cutting-edge solutions.</p>\<newline>'' @
     ''            </div>\<newline>'' @
     ''            ''\<close>

definition default_headerStyle :: header_style where
  "default_headerStyle =
     \<lparr>hdr_fontFamily = ''system-ui'', hdr_fontSize = ''2.25rem'', hdr_fontWeight = ''700'',
      hdr_color = ''#1F2937''\<rparr>"

definition default_buttonStyle :: button_style where
  "default_buttonStyle =
     \<lparr>btn_backgroundColor = ''#4F46E5'', btn_color = ''#FFFFFF'', btn_padding = ''0.75rem 1.5rem'',
      btn_borderRadius = ''0.375rem''\<rparr>"

text \<open>One entry of \<open>images.slice(0, 3).map((img, i) => ...)\<close>.\<close>

definition feature_block :: "WebsiteStyle option \<Rightarrow> string \<times> nat \<Rightarrow> string" where
  "feature_block style p =
     (case p of (img, i) \<Rightarrow>
        tpl_feature_1 @ img @ tpl_feature_2 @ show_nat (i + 1) @ tpl_feature_3
        @ or_else (Option.bind style (\<lambda>s. Option.bind (headings s) (\<lambda>hs. nth_opt hs (i + 2))))
            (''Feature '' @ show_nat (i + 1))
        @ tpl_feature_4)"

definition getFallbackTemplate :: "WebsiteStyle option \<Rightarrow> string" where
  \<open>getFallbackTemplate style =
     (let primaryColor = or_else (Option.bind style (\<lambda>s. Option.bind (colors s) (\<lambda>cs. nth_opt cs 0))) ''#4F46E5'';
          textColor = or_else (Option.bind style (\<lambda>s. Option.bind (colors s) (\<lambda>cs. nth_opt cs 1))) ''#1F2937'';
          backgroundColor = or_else (Option.bind style (\<lambda>s. Option.bind (colors s) (\<lambda>cs. nth_opt cs 2))) ''#F9FAFB'';
          fontFamily = or_else (Option.bind style (\<lambda>s. Option.bind (fonts s) (\<lambda>fs. nth_opt fs 0)))
                         ''system-ui, -apple-system, sans-serif'';
          logo' = Option.bind style logo;
          images' = (case Option.bind style images of None \<Rightarrow> [] | Some xs \<Rightarrow> xs);
          headerStyle = (case Option.bind style (\<lambda>s. nth_opt (headerStyles (styles s)) 0) of
                           None \<Rightarrow> default_headerStyle | Some h \<Rightarrow> h);
          buttonStyle = (case Option.bind style (\<lambda>s. nth_opt (buttonStyles (styles s)) 0) of
                           None \<Rightarrow> default_buttonStyle | Some b \<Rightarrow> b);
          shadow0 = or_else (Option.bind style (\<lambda>s. nth_opt (shadows (styles s)) 0)) ''0 1px 3px rgba(0,0,0,0.1)'';
          shadow1 = or_else (Option.bind style (\<lambda>s. nth_opt (shadows (styles s)) 1)) ''0 4px 6px rgba(0,0,0,0.1)'';
          radius0 = or_else (Option.bind style (\<lambda>s. nth_opt (borderRadius (styles s)) 0)) ''0.5rem''
      in tpl_1 @ or_else (Option.bind style metaDescription) ''Transform your business with our powerful solution''
       @ tpl_2 @ primaryColor
       @ tpl_3 @ textColor
       @ tpl_4 @ backgroundColor
       @ tpl_5 @ fontFamily
       @ tpl_6 @ or_else (map_option (\<lambda>s. maxWidth (layout (styles s))) style) ''1200px''
       @ tpl_7 @ or_else (map_option (\<lambda>s. containerPadding (layout (styles s))) style) ''2rem''
       @ tpl_8 @ or_else (Option.bind style (\<lambda>s. nth_opt (gradients (styles s)) 0)) ''transparent''
       @ tpl_9 @ hdr_fontSize headerStyle
       @ tpl_10 @ hdr_fontWeight headerStyle
       @ tpl_11 @ hdr_color headerStyle
       @ tpl_12 @ btn_backgroundColor buttonStyle
       @ tpl_13 @ btn_color buttonStyle
       @ tpl_14 @ btn_padding buttonStyle
       @ tpl_15 @ btn_borderRadius buttonStyle
       @ tpl_16 @ shadow0
       @ tpl_17 @ shadow1
       @ tpl_18 @ or_else (map_option (\<lambda>s. gridGap (layout (styles s))) style) ''2rem''
       @ tpl_19 @ radius0
       @ tpl_20 @ shadow0
       @ tpl_21 @ radius0
       @ tpl_22 @ (case logo' of None \<Rightarrow> []
                   | Some l \<Rightarrow> if l = [] then [] else ''<img src="'' @ l @ ''" alt="Logo" class="logo">'')
       @ tpl_23 @ or_else (Option.bind style (\<lambda>s. Option.bind (headings s) (\<lambda>hs. nth_opt hs 0)))
                    ''Transform Your Business Today''
       @ tpl_24 @ or_else (Option.bind style (\<lambda>s. Option.bind (headings s) (\<lambda>hs. nth_opt hs 1)))
                    ''We're crafting the perfect solution to help your business grow. Stay tuned for our exciting launch.''
       @ tpl_25 @ concat (map (feature_block style) (zip (take 3 images') [0 ..< length (take 3 images')]))
       @ tpl_26)\<close>

text \<open>The older variant of the file declares \<open>getFallbackTemplate(prompt, style)\<close>; its body
  is the text of the one above, character for character, and never reads \<open>prompt\<close>.\<close>

definition getFallbackTemplate_v2 :: "string \<Rightarrow> WebsiteStyle option \<Rightarrow> string" where
  "getFallbackTemplate_v2 prompt style = getFallbackTemplate style"

section \<open>ai.ts: rate limit, retries and the generation call\<close>

text \<open>
  The module state: the mock clock read by \<open>Date.now()\<close>, \<open>lastRequestTime\<close>, whether
  \<open>openaiClient\<close> has been constructed, and (as a ghost field) the clock readings at which
  \<open>openai.chat.completions.create\<close> was called.
\<close>

record ai_state =
  clock :: int
  lastRequestTime :: int
  openaiClient :: bool
  requests :: "int list"

text \<open>What is thrown: an \<open>Error\<close> with its message, or a value that is no \<open>Error\<close>.\<close>

datatype thrown = Err string | NonError

text \<open>
  The provider is the environment. For each pass of the retry loop it says how late the
  rate-limit timer fires, how long the request takes, whether the request rejects or
  which \<open>choices[0].message.content\<close> it yields, and how late the backoff timer fires.
  The prompt text built from the style profile only travels to the provider, so it has no
  part in the model.
\<close>

datatype completion = Rejects thrown | Content "string option"

record attempt =
  wait_lag :: nat
  latency :: nat
  settles :: completion
  backoff_lag :: nat

record AIPromptResponse =
  html :: string
  error :: "string option"

record AIPromptResponse_v2 = AIPromptResponse +
  css :: string

definition MIN_REQUEST_INTERVAL :: int where
  "MIN_REQUEST_INTERVAL = 20000"

definition MAX_RETRIES :: nat where
  "MAX_RETRIES = 3"

definition RETRY_DELAY :: int where
  "RETRY_DELAY = 5000"

definition getOpenAIClient :: "string option \<Rightarrow> ai_state \<Rightarrow> thrown + ai_state" where
  "getOpenAIClient apiKey st =
     (if \<not> openaiClient st then
        (if apiKey = None \<or> apiKey = Some [] then Inl (Err ''OpenAI API key is not configured'')
         else Inr (st\<lparr>openaiClient := True\<rparr>))
      else Inr st)"

text \<open>A timer set for \<open>ms\<close> milliseconds fires \<open>lag\<close> milliseconds late, never early.\<close>

definition delay :: "int \<Rightarrow> nat \<Rightarrow> ai_state \<Rightarrow> ai_state" where
  "delay ms lag st = st\<lparr>clock := clock st + ms + int lag\<rparr>"

text \<open>\<open>waitForRateLimit\<close> in its two parts: up to the \<open>await\<close> it reads the clock and
  \<open>lastRequestTime\<close> and finds the wait that is due, if any; behind it, it records the
  clock as \<open>lastRequestTime\<close>.\<close>

definition rate_limit_wait :: "ai_state \<Rightarrow> int option" where
  "rate_limit_wait st =
     (let now = clock st;
          timeSinceLastRequest = now - lastRequestTime st
      in if timeSinceLastRequest < MIN_REQUEST_INTERVAL
         then Some (MIN_REQUEST_INTERVAL - timeSinceLastRequest)
         else None)"

definition record_request_time :: "ai_state \<Rightarrow> ai_state" where
  "record_request_time st = st\<lparr>lastRequestTime := clock st\<rparr>"

definition waitForRateLimit :: "nat \<Rightarrow> ai_state \<Rightarrow> ai_state" where
  "waitForRateLimit lag st =
     (case rate_limit_wait st of
        Some ms \<Rightarrow> record_request_time (delay ms lag st)
      | None \<Rightarrow> record_request_time st)"

text \<open>The call of \<open>openai.chat.completions.create\<close>, noted with the clock reading.\<close>

definition issue_request :: "ai_state \<Rightarrow> ai_state" where
  "issue_request st = st\<lparr>requests := requests st @ [clock st]\<rparr>"

definition error_message :: "thrown \<Rightarrow> string" where
  "error_message e = (case e of Err m \<Rightarrow> m | NonError \<Rightarrow> ''Unknown error'')"

definition isRetryable :: "string \<Rightarrow> bool" where
  "isRetryable m =
     (includes_str m ''rate_limit'' \<or> includes_str m ''timeout''
      \<or> includes_str m ''network'' \<or> includes_str m ''internal_error'')"

text \<open>The body of the \<open>try\<close> block up to \<open>generatedCode\<close>: what it throws, or the text.\<close>

definition provider_attempt :: "string option \<Rightarrow> attempt \<Rightarrow> ai_state \<Rightarrow> (thrown + string) \<times> ai_state" where
  "provider_attempt apiKey a st =
     (let st1 = waitForRateLimit (wait_lag a) st in
      case getOpenAIClient apiKey st1 of
        Inl e \<Rightarrow> (Inl e, st1)
      | Inr st2 \<Rightarrow>
          (let st3 = (issue_request st2)\<lparr>clock := clock st2 + int (latency a)\<rparr> in
           case settles a of
             Rejects e \<Rightarrow> (Inl e, st3)
           | Content None \<Rightarrow> (Inl (Err ''Failed to generate landing page content''), st3)
           | Content (Some generatedCode) \<Rightarrow>
               (if generatedCode = []
                then (Inl (Err ''Failed to generate landing page content''), st3)
                else (Inr generatedCode, st3))))"

text \<open>The loop of \<open>generateLandingPage\<close> in the current file: \<open>retries\<close> and
  \<open>lastError\<close> are its variables, \<open>env\<close> the environment of each pass.\<close>

function generate_loop ::
  "string option \<Rightarrow> (nat \<Rightarrow> attempt) \<Rightarrow> nat \<Rightarrow> string option \<Rightarrow> ai_state \<Rightarrow> AIPromptResponse \<times> ai_state" where
  "generate_loop apiKey env retries lastError st =
     (if retries < MAX_RETRIES then
        (case provider_attempt apiKey (env retries) st of
           (Inr generatedCode, st1) \<Rightarrow> (\<lparr>html = cleanGeneratedCode generatedCode, error = None\<rparr>, st1)
         | (Inl e, st1) \<Rightarrow>
             (let msg = error_message e in
              if \<not> isRetryable msg
              then (\<lparr>html = [], error = Some (or_else (Some msg) ''Failed to generate content'')\<rparr>, st1)
              else if retries + 1 < MAX_RETRIES
              then generate_loop apiKey env (retries + 1) (Some msg)
                     (delay (RETRY_DELAY * int (retries + 1)) (backoff_lag (env retries)) st1)
              else generate_loop apiKey env (retries + 1) (Some msg) st1))
      else (\<lparr>html = [], error = Some (or_else lastError ''Failed to generate content'')\<rparr>, st))"
  by pat_completeness auto
termination
  by (relation "measure (\<lambda>(apiKey, env, retries, lastError, st). MAX_RETRIES - retries)") auto

definition generateLandingPage ::
  "string option \<Rightarrow> (nat \<Rightarrow> attempt) \<Rightarrow> string \<Rightarrow> WebsiteStyle option \<Rightarrow> ai_state \<Rightarrow> AIPromptResponse \<times> ai_state" where
  "generateLandingPage apiKey env prompt style st = generate_loop apiKey env 0 None st"

text \<open>The loop of \<open>generateLandingPage\<close> in the older variant of the file: the text is
  returned as it came, and the failure result carries the fallback template.\<close>

function generate_loop_v2 ::
  "string option \<Rightarrow> (nat \<Rightarrow> attempt) \<Rightarrow> string \<Rightarrow> WebsiteStyle option \<Rightarrow> nat \<Rightarrow> string option \<Rightarrow> ai_state
   \<Rightarrow> AIPromptResponse_v2 \<times> ai_state" where
  "generate_loop_v2 apiKey env prompt style retries lastError st =
     (if retries < MAX_RETRIES then
        (case provider_attempt apiKey (env retries) st of
           (Inr generatedCode, st1) \<Rightarrow> (\<lparr>html = generatedCode, error = None, css = []\<rparr>, st1)
         | (Inl e, st1) \<Rightarrow>
             (let msg = error_message e in
              if \<not> isRetryable msg
              then (\<lparr>html = getFallbackTemplate_v2 prompt style,
                     error = Some (or_else (Some msg) ''Failed to generate content''), css = []\<rparr>, st1)
              else if retries + 1 < MAX_RETRIES
              then generate_loop_v2 apiKey env prompt style (retries + 1) (Some msg)
                     (delay (RETRY_DELAY * int (retries + 1)) (backoff_lag (env retries)) st1)
              else generate_loop_v2 apiKey env prompt style (retries + 1) (Some msg) st1))
      else (\<lparr>html = getFallbackTemplate_v2 prompt style,
             error = Some (or_else lastError ''Failed to generate content''), css = []\<rparr>, st))"
  by pat_completeness auto
termination
  by (relation "measure (\<lambda>(apiKey, env, prompt, style, retries, lastError, st). MAX_RETRIES - retries)") auto

definition generateLandingPage_v2 ::
  "string option \<Rightarrow> (nat \<Rightarrow> attempt) \<Rightarrow> string \<Rightarrow> WebsiteStyle option \<Rightarrow> ai_state
   \<Rightarrow> AIPromptResponse_v2 \<times> ai_state" where
  "generateLandingPage_v2 apiKey env prompt style st = generate_loop_v2 apiKey env prompt style 0 None st"

text \<open>The rate-limit invariant of the module state: the requests issued so far are at least
  the minimum interval apart, and none is later than \<open>lastRequestTime\<close>.\<close>

definition spaced :: "int list \<Rightarrow> bool" where
  "spaced ts = sorted_wrt (\<lambda>a b. a + MIN_REQUEST_INTERVAL \<le> b) ts"

definition rate_inv :: "ai_state \<Rightarrow> bool" where
  "rate_inv st = (spaced (requests st) \<and> list_all (\<lambda>t. t \<le> lastRequestTime st) (requests st))"

text \<open>How one state follows another in a run: \<open>lastRequestTime\<close> has not gone back, and the
  requests issued in between are spaced, at least the interval after the earlier
  \<open>lastRequestTime\<close> and not after the later one.\<close>

definition grows :: "ai_state \<Rightarrow> ai_state \<Rightarrow> bool" where
  "grows st st' =
     (lastRequestTime st \<le> lastRequestTime st' \<and>
      (\<exists>new. requests st' = requests st @ new \<and> spaced new
         \<and> list_all (\<lambda>t. lastRequestTime st + MIN_REQUEST_INTERVAL \<le> t \<and> t \<le> lastRequestTime st') new))"

text \<open>The client can be had: it is constructed already, or the API key is configured.\<close>

definition key_ok :: "string option \<Rightarrow> ai_state \<Rightarrow> bool" where
  "key_ok apiKey st = (openaiClient st \<or> (apiKey \<noteq> None \<and> apiKey \<noteq> Some []))"

text \<open>A module state just loaded, read at clock 1000, and a provider that rejects every
  request with a rate-limit error after 300 ms.\<close>

definition fresh_state :: ai_state where
  "fresh_state = \<lparr>clock = 1000, lastRequestTime = 0, openaiClient = False, requests = []\<rparr>"

definition rate_limited_env :: "nat \<Rightarrow> attempt" where
  "rate_limited_env i =
     \<lparr>wait_lag = 0, latency = 300, settles = Rejects (Err ''rate_limit_exceeded''), backoff_lag = 0\<rparr>"

text \<open>A provider that answers every request after 1500 ms with a page.\<close>

definition answering_env :: "nat \<Rightarrow> attempt" where
  "answering_env i =
     \<lparr>wait_lag = 0, latency = 1500, settles = Content (Some ''<p>a</p>''), backoff_lag = 0\<rparr>"

text \<open>
  Two calls issued in the same turn of the event loop, from a state in which a wait is due.
  Each call runs up to the \<open>await\<close> of its timer before any timer fires, so both read the
  same clock and the same \<open>lastRequestTime\<close> and set the same timer. When the timers fire
  (here on time), the first call records the time, gets the client and issues its request,
  and then the second call does the same. \<open>None\<close>: no wait is due, so the calls do not meet
  this way.
\<close>

definition resume_call :: "string option \<Rightarrow> ai_state \<Rightarrow> ai_state" where
  "resume_call apiKey st =
     (let st1 = record_request_time st in
      case getOpenAIClient apiKey st1 of
        Inl e \<Rightarrow> st1
      | Inr st2 \<Rightarrow> issue_request st2)"

definition two_calls_in_one_turn :: "string option \<Rightarrow> ai_state \<Rightarrow> ai_state option" where
  "two_calls_in_one_turn apiKey st =
     (case rate_limit_wait st of
        None \<Rightarrow> None
      | Some ms \<Rightarrow> Some (resume_call apiKey (resume_call apiKey (delay ms 0 st))))"

text \<open>A module state one second after a request was issued.\<close>

definition busy_state :: ai_state where
  "busy_state =
     \<lparr>clock = 1700000001000, lastRequestTime = 1700000000000, openaiClient = True,
      requests = [1700000000000]\<rparr>"

declare generate_loop.simps [simp del] generate_loop_v2.simps [simp del]

section \<open>The platform: documents\<close>

text \<open>
  The DOM belongs to the platform too. An element is what the code reads of it: its
  attributes (\<open>getAttribute\<close>), its \<open>textContent\<close>, the \<open>backgroundImage\<close> of its
  \<open>style\<close> object, and whether it is an \<open>HTMLElement\<close>. A document is its \<open>baseURI\<close> and
  the answer of \<open>querySelectorAll\<close> to each selector, in document order.
\<close>

record element =
  attrs :: "(string \<times> string) list"
  textContent :: string
  style_backgroundImage :: string
  isHTMLElement :: bool

record document =
  baseURI :: string
  querySelectorAll :: "string \<Rightarrow> element list"

definition getAttribute :: "element \<Rightarrow> string \<Rightarrow> string option" where
  "getAttribute e n = map_of (attrs e) n"

definition querySelector :: "document \<Rightarrow> string \<Rightarrow> element option" where
  "querySelector doc sel = (case querySelectorAll doc sel of [] \<Rightarrow> None | e # es \<Rightarrow> Some e)"

text \<open>
  The rest of the platform: the URL constructor, \<open>DOMParser.parseFromString\<close>, what
  \<open>querySelector\<close> throws on a selector that is not valid CSS (\<open>None\<close> for a valid one; the
  selectors written out in the code are valid), and the document's \<open>outerHTML\<close> after a
  \<open>style\<close> element with the given text was appended to its head and its stylesheet links
  were removed.
\<close>

record platform =
  URL_new :: url_ctor
  parseFromString :: "string \<Rightarrow> document"
  selector_error :: "string \<Rightarrow> thrown option"
  outerHTML_with_style :: "string \<Rightarrow> string \<Rightarrow> string"

section \<open>Regular expressions and number parsing\<close>

text \<open>
  A pattern is modelled by its matcher at one position: the length of the match that starts
  at the head of the text, if there is one. \<open>match_all\<close> is \<open>String.prototype.match\<close> with a
  \<open>g\<close> pattern (the empty list where JavaScript answers \<open>null\<close>): after a match the scan
  goes on behind it. \<open>match_first\<close> is the leftmost match of a pattern without \<open>g\<close>.
\<close>

function match_all :: "(string \<Rightarrow> nat option) \<Rightarrow> string \<Rightarrow> string list" where
  "match_all m [] = []"
| "match_all m (c # cs) =
     (case m (c # cs) of
        Some n \<Rightarrow> take n (c # cs) # match_all m (drop (n - 1) cs)
      | None \<Rightarrow> match_all m cs)"
  by pat_completeness auto
termination
  by (relation "measure (\<lambda>(m, s). length s)") auto

fun match_first :: "(string \<Rightarrow> 'a option) \<Rightarrow> string \<Rightarrow> 'a option" where
  "match_first m [] = None"
| "match_first m (c # cs) = (case m (c # cs) of Some r \<Rightarrow> Some r | None \<Rightarrow> match_first m cs)"

definition code_unit :: "char \<Rightarrow> nat" where
  "code_unit c = of_char c"

definition isDigit :: "char \<Rightarrow> bool" where
  "isDigit c = (48 \<le> code_unit c \<and> code_unit c \<le> 57)"

definition isLowerHex :: "char \<Rightarrow> bool" where
  "isLowerHex c = (97 \<le> code_unit c \<and> code_unit c \<le> 102)"

definition isUpperHex :: "char \<Rightarrow> bool" where
  "isUpperHex c = (65 \<le> code_unit c \<and> code_unit c \<le> 70)"

definition isHexDigit :: "char \<Rightarrow> bool" where
  "isHexDigit c = (isDigit c \<or> isLowerHex c \<or> isUpperHex c)"

text \<open>\<open>/(#[0-9A-Fa-f]{3,6}|rgb\([^)]+\)|rgba\([^)]+\))/\<close>\<close>

definition paren_body :: "string \<Rightarrow> nat option" where
  "paren_body r =
     (let body = takeWhile (\<lambda>c. c \<noteq> CHR '')'') r
      in if body \<noteq> [] \<and> length body < length r then Some (length body + 1) else None)"

definition color_at :: "string \<Rightarrow> nat option" where
  "color_at s =
     (if startsWith s ''#'' then
        (let n = length (takeWhile isHexDigit (take 6 (tl s))) in if 3 \<le> n then Some (1 + n) else None)
      else if startsWith s ''rgb('' then map_option (\<lambda>n. 4 + n) (paren_body (drop 4 s))
      else if startsWith s ''rgba('' then map_option (\<lambda>n. 5 + n) (paren_body (drop 5 s))
      else None)"

text \<open>\<open>/font-family:\s*([^;}"']+)/\<close>: white space is in the class, so the match is the
  longest run of class characters behind the colon, if it is not empty.\<close>

definition font_family_at :: "string \<Rightarrow> nat option" where
  \<open>font_family_at s =
     (if startsWith s ''font-family:'' then
        (let run = takeWhile (\<lambda>c. c \<notin> set '';}"'' \<and> c \<noteq> CHR 0x27) (drop 12 s)
         in if run \<noteq> [] then Some (12 + length run) else None)
      else None)\<close>

text \<open>\<open>/family=([^&:]+)/\<close>, answering the group.\<close>

definition family_at :: "string \<Rightarrow> string option" where
  "family_at s =
     (if startsWith s ''family='' then
        (let run = takeWhile (\<lambda>c. c \<noteq> CHR ''&'' \<and> c \<noteq> CHR '':'') (drop 7 s)
         in if run \<noteq> [] then Some run else None)
      else None)"

definition isQuote :: "char \<Rightarrow> bool" where
  "isQuote c = (c = CHR 0x22 \<or> c = CHR 0x27)"

text \<open>\<open>['"]?([^'")]+)['"]?\)\<close> behind an opening \<open>url(\<close>: the group and the length
  of the whole.\<close>

definition url_paren_tail :: "string \<Rightarrow> (string \<times> nat) option" where
  "url_paren_tail r =
     (let q1 = (if r \<noteq> [] \<and> isQuote (hd r) then 1 else 0);
          r1 = drop q1 r;
          body = takeWhile (\<lambda>c. \<not> isQuote c \<and> c \<noteq> CHR '')'') r1;
          r2 = drop (length body) r1;
          q2 = (if r2 \<noteq> [] \<and> isQuote (hd r2) then 1 else 0);
          r3 = drop q2 r2
      in if body \<noteq> [] \<and> startsWith r3 '')'' then Some (body, q1 + length body + q2 + 1)
         else None)"

text \<open>\<open>/url\(['"]?([^'")]+)['"]?\)/\<close>, answering the group.\<close>

definition css_url_at :: "string \<Rightarrow> string option" where
  "css_url_at s = (if startsWith s ''url('' then map_option fst (url_paren_tail (drop 4 s)) else None)"

text \<open>\<open>/@import\s+(?:url\(['"]?([^'")]+)['"]?\)|['"]([^'"]+)['"]);/\<close>\<close>

definition import_rule_at :: "string \<Rightarrow> nat option" where
  "import_rule_at s =
     (if startsWith s ''@import'' then
        (let r = drop 7 s;
             ws = takeWhile isWhiteSpace r;
             r1 = drop (length ws) r
         in if ws = [] then None
            else if startsWith r1 ''url('' then
              (case url_paren_tail (drop 4 r1) of
                 None \<Rightarrow> None
               | Some (g, n) \<Rightarrow>
                   if startsWith (drop (4 + n) r1) '';'' then Some (7 + length ws + 4 + n + 1) else None)
            else if r1 \<noteq> [] \<and> isQuote (hd r1) then
              (let body = takeWhile (\<lambda>c. \<not> isQuote c) (tl r1);
                   r2 = drop (length body) (tl r1)
               in if body \<noteq> [] \<and> r2 \<noteq> [] \<and> isQuote (hd r2) \<and> startsWith (tl r2) '';''
                  then Some (7 + length ws + 1 + length body + 2) else None)
            else None)
      else None)"

text \<open>\<open>/['"]([^'"]+)['"]/\<close>, answering the group.\<close>

definition quoted_at :: "string \<Rightarrow> string option" where
  "quoted_at s =
     (if s \<noteq> [] \<and> isQuote (hd s) then
        (let body = takeWhile (\<lambda>c. \<not> isQuote c) (tl s);
             r = drop (length body) (tl s)
         in if body \<noteq> [] \<and> r \<noteq> [] \<and> isQuote (hd r) then Some body else None)
      else None)"

text \<open>\<open>/\.(jpg|jpeg|png|webp)(\?.*)?$/i\<close>: the dot of \<open>.*\<close> stops at a line terminator,
  and without the \<open>m\<close> flag \<open>$\<close> is the end of the text.\<close>

definition ascii_lower :: "char \<Rightarrow> char" where
  "ascii_lower c = (if 65 \<le> code_unit c \<and> code_unit c \<le> 90 then char_of (code_unit c + 32) else c)"

definition image_ext_at :: "string \<Rightarrow> bool" where
  "image_ext_at s =
     (startsWith s ''.'' \<and>
      list_ex (\<lambda>ext.
          startsWith (map ascii_lower (tl s)) ext \<and>
          (let r = drop (length ext) (tl s)
           in r = [] \<or> (startsWith r ''?'' \<and> \<not> list_ex isLineTerminator (tl r))))
        [''jpg'', ''jpeg'', ''png'', ''webp''])"

fun has_image_ext :: "string \<Rightarrow> bool" where
  "has_image_ext [] = False"
| "has_image_ext (c # cs) = (image_ext_at (c # cs) \<or> has_image_ext cs)"

text \<open>\<open>parseInt(s)\<close>: leading white space, a sign, then decimal digits, or hexadecimal
  digits behind \<open>0x\<close>; \<open>None\<close> is \<open>NaN\<close>, which every comparison answers with false.\<close>

definition digit_value :: "char \<Rightarrow> int" where
  "digit_value c =
     (if isDigit c then int (code_unit c) - 48
      else if isLowerHex c then int (code_unit c) - 87
      else int (code_unit c) - 55)"

definition parseInt :: "string \<Rightarrow> int option" where
  "parseInt s =
     (let s1 = dropWhile isWhiteSpace s;
          neg = startsWith s1 ''-'';
          s2 = (if startsWith s1 ''-'' \<or> startsWith s1 ''+'' then tl s1 else s1);
          hex = (startsWith s2 ''0x'' \<or> startsWith s2 ''0X'');
          ds = (if hex then takeWhile isHexDigit (drop 2 s2) else takeWhile isDigit s2);
          v = foldl (\<lambda>a c. a * (if hex then 16 else 10) + digit_value c) 0 ds
      in if ds = [] then None else Some (if neg then - v else v))"

text \<open>\<open>String.prototype.toLowerCase\<close> on code units below 256.\<close>

definition toLowerChar :: "char \<Rightarrow> char" where
  "toLowerChar c =
     (let n = code_unit c
      in if (65 \<le> n \<and> n \<le> 90) \<or> (192 \<le> n \<and> n \<le> 222 \<and> n \<noteq> 215) then char_of (n + 32) else c)"

definition toLowerCase :: "string \<Rightarrow> string" where
  "toLowerCase s = map toLowerChar s"

section \<open>scraper.ts: constants\<close>

definition FALLBACK_IMAGES :: "string list" where
  "FALLBACK_IMAGES =
     [''https://images.unsplash.com/photo-1606857521015-7f9fcf423740?w=1200&q=80'',
      ''https://images.unsplash.com/photo-1618005182384-a83a8bd57fbe?w=1200&q=80'',
      ''https://images.unsplash.com/photo-1551434678-e076c223a692?w=1200&q=80'',
      ''https://images.unsplash.com/photo-1506765515384-028b60a970df?w=1200&q=80'',
      ''https://images.unsplash.com/photo-1498050108023-c5249f4df085?w=1200&q=80'']"

definition DEFAULT_STYLE :: WebsiteStyle where
  "DEFAULT_STYLE =
     \<lparr>colors = Some [''#1a1a1a'', ''#ffffff'', ''#3b82f6'', ''#4F46E5'', ''#7C3AED''],
      fonts = Some [''system-ui'', ''-apple-system'', ''sans-serif''],
      images = Some FALLBACK_IMAGES,
      logo = None,
      metaDescription = None,
      headings = None,
      styles =
        \<lparr>spacing = [''0.5rem'', ''1rem'', ''1.5rem'', ''2rem''],
         borderRadius = [''0.25rem'', ''0.5rem'', ''0.75rem''],
         layout = \<lparr>maxWidth = ''1200px'', containerPadding = ''2rem'', gridGap = ''2rem''\<rparr>,
         buttonStyles =
           [\<lparr>btn_backgroundColor = ''#4F46E5'', btn_color = ''#FFFFFF'',
             btn_padding = ''0.75rem 1.5rem'', btn_borderRadius = ''0.375rem''\<rparr>],
         headerStyles =
           [\<lparr>hdr_fontFamily = ''system-ui'', hdr_fontSize = ''2.25rem'', hdr_fontWeight = ''700'',
             hdr_color = ''#1F2937''\<rparr>],
         gradients =
           [''linear-gradient(to right, #4F46E5, #7C3AED)'',
            ''linear-gradient(to bottom, #F9FAFB, #F3F4F6)''],
         shadows =
           [''0 1px 3px rgba(0,0,0,0.1)'', ''0 4px 6px rgba(0,0,0,0.1)'',
            ''0 10px 15px rgba(0,0,0,0.1)'']\<rparr>\<rparr>"

section \<open>scraper.ts: the extractors\<close>

text \<open>\<open>xs || d\<close> on an array: every array is truthy, the empty one too, so the answer is
  always \<open>xs\<close>.\<close>

definition or_array :: "'a list \<Rightarrow> 'a list \<Rightarrow> 'a list" where
  "or_array xs d = xs"

text \<open>\<open>a || b\<close> on two optional strings.\<close>

definition or_opt :: "string option \<Rightarrow> string option \<Rightarrow> string option" where
  "or_opt a b = (case a of None \<Rightarrow> b | Some s \<Rightarrow> if s = [] then b else Some s)"

definition keep_color :: "string \<Rightarrow> bool" where
  "keep_color color =
     (\<not> includes_str color ''var('' \<and> color \<notin> set [''inherit'', ''transparent'', ''currentColor''])"

definition add_colors :: "string list \<Rightarrow> string \<Rightarrow> string list" where
  "add_colors found text = foldl set_add found (filter keep_color (match_all color_at text))"

definition extractColors :: "document \<Rightarrow> string list" where
  "extractColors doc =
     (let elements = querySelectorAll doc ''[style], [class]'';
          colors1 = foldl (\<lambda>colors el.
                       case getAttribute el ''style'' of
                         None \<Rightarrow> colors
                       | Some style \<Rightarrow> if style = [] then colors else add_colors colors style)
                     [] elements;
          colors2 = foldl (\<lambda>colors styleEl. add_colors colors (textContent styleEl))
                     colors1 (querySelectorAll doc ''style'')
      in or_array (take 5 colors2) (the (colors DEFAULT_STYLE)))"

definition first_font :: "string \<Rightarrow> string" where
  "first_font font =
     (let fontFamily = trim (drop 12 font)
      in trim (filter (\<lambda>c. \<not> isQuote c) (hd (split_on CHR '','' fontFamily))))"

definition keep_font :: "string \<Rightarrow> bool" where
  "keep_font firstFont =
     (\<not> includes_str firstFont ''var('' \<and>
      firstFont \<notin> set [''inherit'', ''system-ui'', ''-apple-system'', ''sans-serif'', ''serif'', ''monospace''])"

definition extractFonts :: "document \<Rightarrow> string list" where
  \<open>extractFonts doc =
     (let fonts1 = foldl (\<lambda>fonts styleEl.
                      foldl set_add fonts
                        (filter keep_font (map first_font (match_all font_family_at (textContent styleEl)))))
                    [] (querySelectorAll doc ''style'');
          fonts2 = foldl (\<lambda>fonts link.
                      case match_first family_at (or_else (getAttribute link ''href'') []) of
                        None \<Rightarrow> fonts
                      | Some family \<Rightarrow> set_add fonts (map (\<lambda>c. if c = CHR ''+'' then CHR '' '' else c) family))
                    fonts1 (querySelectorAll doc ''link[href*="fonts.googleapis.com"]'')
      in or_array (take 3 fonts2) (the (fonts DEFAULT_STYLE)))\<close>

text \<open>The loop over the brand selectors: \<open>querySelector\<close> throws on a selector the brand
  text has made invalid.\<close>

fun first_brand_logo :: "platform \<Rightarrow> document \<Rightarrow> string list \<Rightarrow> thrown + string option" where
  "first_brand_logo P doc [] = Inr None"
| "first_brand_logo P doc (selector # rest) =
     (case selector_error P selector of
        Some t \<Rightarrow> Inl t
      | None \<Rightarrow>
          (case querySelector doc selector of
             None \<Rightarrow> first_brand_logo P doc rest
           | Some img \<Rightarrow>
               (case or_opt (getAttribute img ''src'') (getAttribute img ''data-src'') of
                  None \<Rightarrow> first_brand_logo P doc rest
                | Some src \<Rightarrow>
                    if src = [] then first_brand_logo P doc rest
                    else Inr (Some (resolveUrl (URL_new P) (baseURI doc) src)))))"

text \<open>The loop over the generic selectors, all of them valid.\<close>

fun first_generic_logo :: "platform \<Rightarrow> document \<Rightarrow> string list \<Rightarrow> string option" where
  "first_generic_logo P doc [] = None"
| "first_generic_logo P doc (selector # rest) =
     (case querySelector doc selector of
        None \<Rightarrow> first_generic_logo P doc rest
      | Some img \<Rightarrow>
          (case or_opt (getAttribute img ''src'') (getAttribute img ''data-src'') of
             None \<Rightarrow> first_generic_logo P doc rest
           | Some src \<Rightarrow>
               if src = [] then first_generic_logo P doc rest
               else Some (resolveUrl (URL_new P) (baseURI doc) src)))"

definition brandSelectors :: "string \<Rightarrow> string list" where
  \<open>brandSelectors brandLower =
     [''img[src*="'' @ brandLower @ ''-logo"]'',
      ''img[src*="logo-'' @ brandLower @ ''"]'',
      ''img[src*="'' @ brandLower @ ''_logo"]'',
      ''img[src*="logo_'' @ brandLower @ ''"]'',
      ''img[alt*="'' @ brandLower @ '' logo"]'',
      ''header img[src*="'' @ brandLower @ ''"]'',
      ''nav img[src*="'' @ brandLower @ ''"]'',
      ''img[src*="'' @ brandLower @ ''"][width="32"]'',
      ''img[src*="'' @ brandLower @ ''"][width="64"]'',
      ''img[src*="'' @ brandLower @ ''"][width="100"]'',
      ''img[src*="'' @ brandLower @ ''"][width="128"]'',
      ''img[src*="'' @ brandLower @ ''"][width="200"]'']\<close>

definition genericLogoSelectors :: "string list" where
  \<open>genericLogoSelectors =
     [''header img[src*="logo"]'',
      ''header img[alt*="logo"]'',
      ''nav img[src*="logo"]'',
      ''nav img[alt*="logo"]'',
      ''.logo img'',
      ''img.logo'',
      ''img[src*="logo"]'',
      ''img[alt*="logo"]'']\<close>

text \<open>\<open>parseInt(img.getAttribute(name) || '0')\<close>\<close>

definition int_attr :: "element \<Rightarrow> string \<Rightarrow> int option" where
  "int_attr img name = parseInt (or_else (getAttribute img name) ''0'')"

definition square_logo_size :: "element \<Rightarrow> bool" where
  "square_logo_size img =
     (case (int_attr img ''width'', int_attr img ''height'') of
        (Some width, Some height) \<Rightarrow> width = height \<and> 32 \<le> width \<and> width \<le> 200
      | _ \<Rightarrow> False)"

definition generic_logo :: "platform \<Rightarrow> document \<Rightarrow> string option" where
  "generic_logo P doc =
     (case first_generic_logo P doc genericLogoSelectors of
        Some found \<Rightarrow> Some found
      | None \<Rightarrow>
          (case filter square_logo_size (querySelectorAll doc ''header img, nav img'') of
             [] \<Rightarrow> None
           | img # imgs \<Rightarrow>
               (case getAttribute img ''src'' of
                  None \<Rightarrow> None
                | Some src \<Rightarrow> if src = [] then None else Some (resolveUrl (URL_new P) (baseURI doc) src))))"

definition findLogo :: "platform \<Rightarrow> document \<Rightarrow> string option \<Rightarrow> thrown + string option" where
  "findLogo P doc brand =
     (if brand \<noteq> None \<and> brand \<noteq> Some [] then
        (case first_brand_logo P doc (brandSelectors (toLowerCase (the brand))) of
           Inl t \<Rightarrow> Inl t
         | Inr (Some found) \<Rightarrow> Inr (Some found)
         | Inr None \<Rightarrow> Inr (generic_logo P doc))
      else Inr (generic_logo P doc))"

definition heroSelectors :: "string list" where
  \<open>heroSelectors =
     [''.hero img'',
      ''[class*="hero"] img'',
      ''header img:not([src*="logo"])'',
      ''main > section:first-child img'']\<close>

definition contentSelectors :: "string list" where
  "contentSelectors = [''.features img'', ''.products img'', ''.gallery img'', ''article img'', ''section img'']"

definition large_image :: "element \<Rightarrow> bool" where
  "large_image img =
     (let width = int_attr img ''width'';
          height = int_attr img ''height'';
          src = or_else (getAttribute img ''src'') []
      in ((case width of None \<Rightarrow> False | Some w \<Rightarrow> 600 \<le> w)
          \<or> (case height of None \<Rightarrow> False | Some h \<Rightarrow> 400 \<le> h))
         \<and> \<not> includes_str src ''logo''
         \<and> has_image_ext src)"

definition findImages :: "platform \<Rightarrow> document \<Rightarrow> string list" where
  "findImages P doc =
     (let resolve = resolveUrl (URL_new P) (baseURI doc);
          images1 = foldl (\<lambda>images selector.
                        case querySelector doc selector of
                          None \<Rightarrow> images
                        | Some img \<Rightarrow>
                            (case getAttribute img ''src'' of
                               None \<Rightarrow> images
                             | Some src \<Rightarrow> if src = [] then images else set_add images (resolve src)))
                      [] heroSelectors;
          largeImages =
            map resolve
              (filter (\<lambda>src. src \<noteq> [])
                 (map (\<lambda>img. or_else (getAttribute img ''src'') [])
                    (filter large_image (querySelectorAll doc ''img''))));
          images2 = foldl set_add images1 largeImages;
          images3 = foldl (\<lambda>images selector.
                        foldl (\<lambda>images img.
                            case getAttribute img ''src'' of
                              None \<Rightarrow> images
                            | Some src \<Rightarrow>
                                if src \<noteq> [] \<and> has_image_ext src then set_add images (resolve src)
                                else images)
                          images (querySelectorAll doc selector))
                      images2 contentSelectors;
          elementsWithBackground =
            filter (\<lambda>el. style_backgroundImage el \<noteq> [] \<and> style_backgroundImage el \<noteq> ''none'')
              (filter isHTMLElement (querySelectorAll doc ''*''));
          images4 = foldl (\<lambda>images el.
                        case match_first css_url_at (style_backgroundImage el) of
                          None \<Rightarrow> images
                        | Some u \<Rightarrow> set_add images (resolve u))
                      images3 elementsWithBackground
      in take 5 (filter (\<lambda>src. \<not> includes_str src ''logo'') images4))"

section \<open>scraper.ts: fetching\<close>

text \<open>
  The network is the environment. A \<open>fetch\<close> either fails (it rejects, or reading the body
  does) or answers with a status and a body; \<open>response.ok\<close> is a status from 200 to 299.
  The page request is answered per attempt (\<open>retryCount\<close>), a stylesheet request by the
  URL asked for.
\<close>

datatype fetch_result = Failed thrown | Response nat string

definition response_ok :: "nat \<Rightarrow> bool" where
  "response_ok status = (200 \<le> status \<and> status \<le> 299)"

record scrape_env =
  api_key :: "string option"
  page_fetch :: "nat \<Rightarrow> fetch_result"
  css_fetch :: "string \<Rightarrow> fetch_result"
  ensureStorageBucket :: "string \<Rightarrow> bool"
  start_time :: int
  end_time :: int

definition validateUrl :: "platform \<Rightarrow> string \<Rightarrow> bool" where
  "validateUrl P u = (URL_new P u None \<noteq> None)"

text \<open>\<open>Promise.all\<close> over a list of calls that may not return: it returns when all of
  them have.\<close>

primrec mapM_opt :: "('a \<Rightarrow> 'b option) \<Rightarrow> 'a list \<Rightarrow> 'b list option" where
  "mapM_opt f [] = Some []"
| "mapM_opt f (x # xs) =
     Option.bind (f x) (\<lambda>y. Option.bind (mapM_opt f xs) (\<lambda>ys. Some (y # ys)))"

lemma mapM_opt_mono [partial_function_mono]:
  assumes "\<And>x. mono_option (\<lambda>f. B f x)"
  shows "mono_option (\<lambda>f. mapM_opt (B f) xs)"
proof (induction xs)
  case Nil
  show ?case by (simp add: option.const_mono)
next
  case (Cons x xs)
  show ?case
    unfolding mapM_opt.simps
    by (intro partial_function_mono assms Cons)
qed

text \<open>The URLs of the \<open>@import\<close> rules of a stylesheet: each rule's first quoted text.\<close>

definition importUrls :: "string \<Rightarrow> string list" where
  "importUrls sheet =
     filter (\<lambda>u. u \<noteq> []) (map (\<lambda>rule. or_else (match_first quoted_at rule) []) (match_all import_rule_at sheet))"

text \<open>
  \<open>fetchExternalStylesheet\<close> calls itself for every imported URL and carries no depth.
  \<open>None\<close> is the call that never returns; every exception inside is caught and answered
  with the empty text.
\<close>

partial_function (option) fetchExternalStylesheet ::
  "platform \<Rightarrow> (string \<Rightarrow> fetch_result) \<Rightarrow> string \<Rightarrow> string \<Rightarrow> string option" where
  "fetchExternalStylesheet pl web styleUrl baseUrl =
     (case (if startsWith styleUrl ''http'' then Some styleUrl
            else map_option href (URL_new pl styleUrl (Some baseUrl))) of
        None \<Rightarrow> Some []
      | Some fullUrl \<Rightarrow>
          (case web fullUrl of
             Failed t \<Rightarrow> Some []
           | Response status sheet \<Rightarrow>
               if \<not> response_ok status then Some []
               else if match_all import_rule_at sheet = [] then Some sheet
               else Option.bind
                      (mapM_opt (\<lambda>importUrl. fetchExternalStylesheet pl web importUrl baseUrl) (importUrls sheet))
                      (\<lambda>importedStyles. Some (join ''\<newline>'' (sheet # importedStyles)))))"

declare fetchExternalStylesheet.simps [code]

text \<open>The nesting of imports below a stylesheet URL is at most \<open>d\<close>.\<close>

fun import_depth_le :: "platform \<Rightarrow> (string \<Rightarrow> fetch_result) \<Rightarrow> string \<Rightarrow> nat \<Rightarrow> string \<Rightarrow> bool" where
  "import_depth_le P web baseUrl d styleUrl =
     (case (if startsWith styleUrl ''http'' then Some styleUrl
            else map_option href (URL_new P styleUrl (Some baseUrl))) of
        None \<Rightarrow> True
      | Some fullUrl \<Rightarrow>
          (case web fullUrl of
             Failed t \<Rightarrow> True
           | Response status sheet \<Rightarrow>
               \<not> response_ok status \<or> match_all import_rule_at sheet = [] \<or>
               (case d of
                  0 \<Rightarrow> False
                | Suc d' \<Rightarrow> list_all (import_depth_le P web baseUrl d') (importUrls sheet))))"

text \<open>The body of the \<open>try\<close> block of \<open>makeScrapingBeeRequest\<close>: what it throws, or the
  HTML it returns.\<close>

definition request_body :: "platform \<Rightarrow> scrape_env \<Rightarrow> string \<Rightarrow> nat \<Rightarrow> (thrown + string) option" where
  \<open>request_body P env cleanUrl retryCount =
     (case page_fetch env retryCount of
        Failed t \<Rightarrow> Some (Inl t)
      | Response status body \<Rightarrow>
          if \<not> response_ok status then
            (if status = 401 \<and> includes_str body ''API calls limit reached''
             then Some (Inl (Err ''API_LIMIT_REACHED''))
             else Some (Inl (Err (''ScrapingBee API error: '' @ show_nat status @ '' - '' @ body))))
          else
            (let doc = parseFromString P body;
                 cssLinks = querySelectorAll doc ''link[rel="stylesheet"]''
             in Option.bind
                  (mapM_opt (\<lambda>link.
                       case getAttribute link ''href'' of
                         None \<Rightarrow> Some []
                       | Some h \<Rightarrow>
                           if h = [] then Some []
                           else fetchExternalStylesheet P (css_fetch env)
                                  (resolveUrl (URL_new P) cleanUrl h) cleanUrl)
                     cssLinks)
                  (\<lambda>stylesheets.
                     let styleContent = join ''\<newline>'' (filter (\<lambda>sheet. sheet \<noteq> []) stylesheets)
                     in if styleContent \<noteq> [] then Some (Inr (outerHTML_with_style P body styleContent))
                        else Some (Inr body))))\<close>

text \<open>What \<open>makeScrapingBeeRequest\<close> does besides returning: the fetches, by attempt, and
  the waits, in milliseconds.\<close>

datatype event = Fetch nat | Sleep nat

function makeScrapingBeeRequest ::
  "platform \<Rightarrow> scrape_env \<Rightarrow> string \<Rightarrow> bool \<Rightarrow> nat \<Rightarrow> ((thrown + string) \<times> event list) option" where
  "makeScrapingBeeRequest P env u withJs retryCount =
     (if api_key env = None \<or> api_key env = Some []
      then Some (Inl (Err ''ScrapingBee API key is not configured''), [])
      else if \<not> validateUrl P (trim u)
      then Some (Inl (Err ''Invalid URL format. Please use http:// or https://''), [])
      else
        (case request_body P env (trim u) retryCount of
           None \<Rightarrow> None
         | Some (Inr page) \<Rightarrow> Some (Inr page, [Fetch retryCount])
         | Some (Inl t) \<Rightarrow>
             if t = Err ''API_LIMIT_REACHED'' then Some (Inl t, [Fetch retryCount])
             else if retryCount < 2 then
               (case makeScrapingBeeRequest P env u withJs (retryCount + 1) of
                  None \<Rightarrow> None
                | Some (r, tr) \<Rightarrow> Some (r, Fetch retryCount # Sleep (2000 * (retryCount + 1)) # tr))
             else Some (Inl t, [Fetch retryCount])))"
  by pat_completeness auto
termination
  by (relation "measure (\<lambda>(P, env, u, withJs, retryCount). 2 - retryCount)") auto

declare makeScrapingBeeRequest.simps [simp del]

section \<open>storage.ts: storing the assets\<close>

definition storage_FALLBACK_IMAGES :: "string list" where
  "storage_FALLBACK_IMAGES =
     [''https://images.unsplash.com/photo-1606857521015-7f9fcf423740?w=1200&q=80'',
      ''https://images.unsplash.com/photo-1618005182384-a83a8bd57fbe?w=1200&q=80'']"

definition isValidImageUrl :: "platform \<Rightarrow> string \<Rightarrow> bool" where
  "isValidImageUrl P u =
     (if startsWith u ''data:'' then False
      else if includes_str u ''images.unsplash.com'' then True
      else (case URL_new P u None of
              None \<Rightarrow> False
            | Some parsed \<Rightarrow>
                list_ex (\<lambda>ext. endsWith (toLowerCase (pathname parsed)) ext)
                  [''.jpg'', ''.jpeg'', ''.png'', ''.gif'', ''.webp'', ''.svg'']))"

text \<open>\<open>downloadAndStoreImage\<close>: \<open>None\<close> is \<open>null\<close>. The file name it computes is never
  used, and \<open>getImageExtension\<close> cannot throw.\<close>

definition downloadAndStoreImage :: "platform \<Rightarrow> scrape_env \<Rightarrow> string \<Rightarrow> string \<Rightarrow> string option" where
  "downloadAndStoreImage P env u projectId =
     (if startsWith u ''data:'' then None
      else if includes_str u ''images.unsplash.com'' then
        Some (if includes_str u ''?'' then u else u @ ''?w=1200&q=80'')
      else if \<not> isValidImageUrl P u then None
      else if \<not> ensureStorageBucket env u then None
      else Some u)"

record asset_row =
  asset_project_id :: string
  asset_type :: string
  asset_url :: string

record assets_found =
  af_colors :: nat
  af_fonts :: nat
  af_images :: nat
  af_logo :: bool
  af_styles :: bool

text \<open>The row \<open>logScrapingResult\<close> inserts (the \<open>timestamp\<close> of a \<open>ScrapingLog\<close> is not
  part of it).\<close>

record ScrapingLog =
  log_project_id :: string
  log_url :: string
  success :: bool
  assets_found :: assets_found
  errors :: "string list option"
  duration_ms :: int
  log_retries :: nat
  using_default_styles :: bool

text \<open>The two tables the scraper writes to.\<close>

record db =
  scraping_logs :: "ScrapingLog list"
  assets :: "asset_row list"

record stored_assets =
  stored_images :: "string list"
  stored_logo :: "string option"

definition insert_asset :: "string \<Rightarrow> string \<Rightarrow> string \<Rightarrow> db \<Rightarrow> db" where
  "insert_asset projectId ty u d =
     d\<lparr>assets := assets d @ [\<lparr>asset_project_id = projectId, asset_type = ty, asset_url = u\<rparr>]\<rparr>"

definition storeProjectAssets ::
  "platform \<Rightarrow> scrape_env \<Rightarrow> string \<Rightarrow> string list \<Rightarrow> string option \<Rightarrow> db \<Rightarrow> stored_assets \<times> db" where
  "storeProjectAssets P env projectId imgs lg d =
     (let storedLogo = (case lg of
                          None \<Rightarrow> None
                        | Some l \<Rightarrow> if l = [] then None else downloadAndStoreImage P env l projectId);
          d1 = (case storedLogo of
                  None \<Rightarrow> d
                | Some l \<Rightarrow> if l = [] then d else insert_asset projectId ''logo'' l d);
          storedUrls = map (\<lambda>u. case downloadAndStoreImage P env u projectId of
                                   None \<Rightarrow> None
                                 | Some s \<Rightarrow> if s = [] then None else Some s) imgs;
          d2 = foldl (\<lambda>acc r. case r of None \<Rightarrow> acc | Some s \<Rightarrow> insert_asset projectId ''image'' s acc)
                 d1 storedUrls;
          kept = map the (filter (\<lambda>r. r \<noteq> None) storedUrls)
      in (\<lparr>stored_images = (if kept = [] then storage_FALLBACK_IMAGES else kept),
           stored_logo = (case storedLogo of None \<Rightarrow> None | Some l \<Rightarrow> if l = [] then None else Some l)\<rparr>,
          d2))"

section \<open>scraper.ts: scrapeWebsite\<close>

definition logScrapingResult :: "ScrapingLog \<Rightarrow> db \<Rightarrow> db" where
  "logScrapingResult entry d = d\<lparr>scraping_logs := scraping_logs d @ [entry]\<rparr>"

text \<open>The \<open>catch\<close> block: what is logged and returned for a thrown value.\<close>

definition scrape_failure ::
  "scrape_env \<Rightarrow> string \<Rightarrow> string \<Rightarrow> thrown \<Rightarrow> db \<Rightarrow> WebsiteStyle \<times> db" where
  "scrape_failure env u projectId t d =
     (let duration = end_time env - start_time env;
          errorMessage = error_message t
      in if t = Err ''API_LIMIT_REACHED'' then
           (DEFAULT_STYLE,
            logScrapingResult
              \<lparr>log_project_id = projectId, log_url = u, success = False,
               assets_found =
                 \<lparr>af_colors = length (the (colors DEFAULT_STYLE)), af_fonts = length (the (fonts DEFAULT_STYLE)),
                  af_images = length FALLBACK_IMAGES, af_logo = False, af_styles = True\<rparr>,
               errors = Some [''API calls limit reached - using default styles''],
               duration_ms = duration, log_retries = 0, using_default_styles = True\<rparr> d)
         else
           (DEFAULT_STYLE,
            logScrapingResult
              \<lparr>log_project_id = projectId, log_url = u, success = False,
               assets_found =
                 \<lparr>af_colors = 0, af_fonts = 0, af_images = 0, af_logo = False, af_styles = False\<rparr>,
               errors = Some [errorMessage],
               duration_ms = duration, log_retries = 0, using_default_styles = True\<rparr> d))"

text \<open>\<open>finalImages\<close>: the images found, padded with the fallback images.\<close>

definition finalImages :: "platform \<Rightarrow> string \<Rightarrow> document \<Rightarrow> string list" where
  "finalImages P u doc =
     (let found = filter (\<lambda>i. i \<noteq> []) (map (resolveUrl (URL_new P) u) (findImages P doc))
      in take 5 (found @ drop (length found) FALLBACK_IMAGES))"

definition resolved_logo :: "platform \<Rightarrow> string \<Rightarrow> string option \<Rightarrow> string option" where
  "resolved_logo P u logoUrl =
     (case logoUrl of None \<Rightarrow> None | Some l \<Rightarrow> if l = [] then None else Some (resolveUrl (URL_new P) u l))"

text \<open>The \<open>try\<close> block behind the logo search, with what \<open>storeProjectAssets\<close> returned
  as \<open>processedAssets\<close>.\<close>

definition scrape_success ::
  "platform \<Rightarrow> scrape_env \<Rightarrow> string \<Rightarrow> string \<Rightarrow> document \<Rightarrow> string option \<Rightarrow> stored_assets \<Rightarrow> db
   \<Rightarrow> WebsiteStyle \<times> db" where
  \<open>scrape_success P env u projectId doc logoUrl processedAssets d =
     (let extractedColors = extractColors doc;
          extractedFonts = extractFonts doc;
          meta = (case querySelector doc ''meta[name="description"]'' of
                    None \<Rightarrow> None
                  | Some el \<Rightarrow> getAttribute el ''content'');
          d1 = logScrapingResult
                 \<lparr>log_project_id = projectId, log_url = u, success = True,
                  assets_found =
                    \<lparr>af_colors = length extractedColors, af_fonts = length extractedFonts,
                     af_images = length (stored_images processedAssets),
                     af_logo = (stored_logo processedAssets \<noteq> None \<and> stored_logo processedAssets \<noteq> Some []),
                     af_styles = True\<rparr>,
                  errors = None,
                  duration_ms = end_time env - start_time env, log_retries = 0,
                  using_default_styles = False\<rparr> d
      in (DEFAULT_STYLE
            \<lparr>colors := Some (if extractedColors \<noteq> [] then extractedColors else the (colors DEFAULT_STYLE)),
             fonts := Some (if extractedFonts \<noteq> [] then extractedFonts else the (fonts DEFAULT_STYLE)),
             images := Some (finalImages P u doc),
             logo := resolved_logo P u logoUrl,
             metaDescription := meta\<rparr>,
          d1))\<close>

text \<open>\<open>scrapeWebsite\<close>: \<open>None\<close> is the call that never returns, because the stylesheet
  fetch below \<open>makeScrapingBeeRequest\<close> does not.\<close>

definition scrapeWebsite ::
  "platform \<Rightarrow> scrape_env \<Rightarrow> string \<Rightarrow> string \<Rightarrow> string option \<Rightarrow> db \<Rightarrow> (WebsiteStyle \<times> db) option" where
  "scrapeWebsite P env u projectId brand d =
     (case makeScrapingBeeRequest P env u True 0 of
        None \<Rightarrow> None
      | Some (Inl t, tr) \<Rightarrow> Some (scrape_failure env u projectId t d)
      | Some (Inr page, tr) \<Rightarrow>
          (let doc = parseFromString P page in
           case findLogo P doc brand of
             Inl t \<Rightarrow> Some (scrape_failure env u projectId t d)
           | Inr logoUrl \<Rightarrow>
               (case storeProjectAssets P env projectId (finalImages P u doc) (resolved_logo P u logoUrl) d of
                  (processedAssets, d1) \<Rightarrow>
                    Some (scrape_success P env u projectId doc logoUrl processedAssets d1))))"

section \<open>Sample platforms, documents and networks\<close>

text \<open>The elements of \<open><html><head><title>t</title></head><body><p>Hello</p></body></html>\<close>
  and the document they make: no element has an attribute, and only \<open>*\<close> among the
  selectors of the code matches anything.\<close>

definition plain_el :: "string \<Rightarrow> element" where
  "plain_el txt = \<lparr>attrs = [], textContent = txt, style_backgroundImage = [], isHTMLElement = True\<rparr>"

definition text_only_doc :: document where
  "text_only_doc =
     \<lparr>baseURI = ''https://app.example/'',
      querySelectorAll = (\<lambda>sel.
        if sel = ''*''
        then [plain_el ''tHello'', plain_el ''t'', plain_el ''t'', plain_el ''Hello'', plain_el ''Hello'']
        else [])\<rparr>"

text \<open>The page \<open><div class="hero"><img src="ftp://files.example.com/hero.jpg"></div>\<close>:
  the \<open>div\<close> and the \<open>img\<close> below \<open>html\<close>, \<open>head\<close> and \<open>body\<close>.\<close>

definition hero_img :: element where
  "hero_img =
     \<lparr>attrs = [(''src'', ''ftp://files.example.com/hero.jpg'')], textContent = [],
      style_backgroundImage = [], isHTMLElement = True\<rparr>"

definition hero_div :: element where
  "hero_div = \<lparr>attrs = [(''class'', ''hero'')], textContent = [], style_backgroundImage = [], isHTMLElement = True\<rparr>"

definition hero_doc :: document where
  \<open>hero_doc =
     \<lparr>baseURI = ''https://app.example/'',
      querySelectorAll = (\<lambda>sel.
        if sel = ''.hero img'' \<or> sel = ''[class*="hero"] img'' \<or> sel = ''img'' then [hero_img]
        else if sel = ''[style], [class]'' then [hero_div]
        else if sel = ''*'' then [plain_el [], plain_el [], plain_el [], hero_div, hero_img]
        else [])\<rparr>\<close>

text \<open>A platform for that page. Its URL constructor is the table of the two absolute URLs
  the run builds URL objects for; no selector is invalid; the serializer is not reached.\<close>

definition sample_platform :: platform where
  "sample_platform =
     \<lparr>URL_new = (\<lambda>input base.
        if input = ''https://shop.example/''
        then Some \<lparr>href = ''https://shop.example/'', pathname = ''/''\<rparr>
        else if input = ''ftp://files.example.com/hero.jpg''
        then Some \<lparr>href = ''ftp://files.example.com/hero.jpg'', pathname = ''/hero.jpg''\<rparr>
        else None),
      parseFromString = (\<lambda>page. hero_doc),
      selector_error = (\<lambda>sel. None),
      outerHTML_with_style = (\<lambda>page sheet. page)\<rparr>"

text \<open>Networks: one that answers the page request with the page, one whose first answer is
  the proxy's quota message, one that always answers with a server error, and for the
  stylesheets one where every sheet imports \<open>a.css\<close> again, one where \<open>a.css\<close> imports
  \<open>b.css\<close>, which imports nothing, and one without any stylesheet.\<close>

definition hero_page :: string where
  \<open>hero_page = ''<div class="hero"><img src="ftp://files.example.com/hero.jpg"></div>''\<close>

definition cyclic_sheet :: string where
  \<open>cyclic_sheet = ''@import "https://shop.example/a.css";''\<close>

definition cyclic_web :: "string \<Rightarrow> fetch_result" where
  "cyclic_web u = Response 200 cyclic_sheet"

definition two_level_web :: "string \<Rightarrow> fetch_result" where
  \<open>two_level_web u =
     (if u = ''https://shop.example/a.css''
      then Response 200 ''@import "https://shop.example/b.css"; p { color: #123456 }''
      else if u = ''https://shop.example/b.css'' then Response 200 ''h1 { color: #abcdef }''
      else Response 404 ''not found'')\<close>

definition no_css_web :: "string \<Rightarrow> fetch_result" where
  "no_css_web u = Response 404 ''not found''"

text \<open>In \<open>page_env\<close> the storage bucket cannot be had, so the adapter rejects every image
  that is not an Unsplash URL.\<close>

definition page_env :: scrape_env where
  "page_env =
     \<lparr>api_key = Some ''bee-key'', page_fetch = (\<lambda>n. Response 200 hero_page), css_fetch = no_css_web,
      ensureStorageBucket = (\<lambda>u. False), start_time = 5000, end_time = 9000\<rparr>"

definition quota_env :: scrape_env where
  \<open>quota_env =
     \<lparr>api_key = Some ''bee-key'',
      page_fetch = (\<lambda>n. Response 401 ''{"message": "Monthly API calls limit reached: 1000"}''),
      css_fetch = two_level_web,
      ensureStorageBucket = (\<lambda>u. True), start_time = 5000, end_time = 5400\<rparr>\<close>

definition failing_env :: scrape_env where
  "failing_env =
     \<lparr>api_key = Some ''bee-key'', page_fetch = (\<lambda>n. Response 500 ''upstream error''),
      css_fetch = two_level_web,
      ensureStorageBucket = (\<lambda>u. True), start_time = 5000, end_time = 12000\<rparr>"

definition empty_db :: db where
  "empty_db = \<lparr>scraping_logs = [], assets = []\<rparr>"

text \<open>The value thrown on quota exhaustion.\<close>

definition quota_exhausted :: thrown where
  "quota_exhausted = Err ''API_LIMIT_REACHED''"

section \<open>Predicates of the claims\<close>





definition request_ready :: "platform \<Rightarrow> scrape_env \<Rightarrow> string \<Rightarrow> bool" where
  "request_ready P env u = (api_key env \<noteq> None \<and> api_key env \<noteq> Some [] \<and> validateUrl P (trim u))"

declare match_all.simps [simp del]

section \<open>Facts about the string helpers\<close>

lemma startsWith_append [simp]: "startsWith (p @ r) p"
  by (induction p) auto

lemma startsWith_includes: "startsWith s p \<Longrightarrow> includes_str s p"
  by (cases s; cases p) auto

lemma includes_str_Cons: "\<not> includes_str (c # cs) p \<Longrightarrow> \<not> includes_str cs p"
  by simp









section \<open>Facts about the generation client\<close>

lemma isRetryable_nonempty: "isRetryable m \<Longrightarrow> m \<noteq> []"
  by (auto simp: isRetryable_def)

lemma getFallbackTemplate_nonempty: "getFallbackTemplate style \<noteq> []"
  by (simp add: getFallbackTemplate_def Let_def tpl_1_def)

lemma waitForRateLimit_last:
  "lastRequestTime st + MIN_REQUEST_INTERVAL \<le> lastRequestTime (waitForRateLimit lag st)"
  by (simp add: waitForRateLimit_def rate_limit_wait_def record_request_time_def delay_def Let_def)

lemma waitForRateLimit_fields:
  "requests (waitForRateLimit lag st) = requests st"
  "clock (waitForRateLimit lag st) = lastRequestTime (waitForRateLimit lag st)"
  "openaiClient (waitForRateLimit lag st) = openaiClient st"
  by (simp_all add: waitForRateLimit_def rate_limit_wait_def record_request_time_def delay_def Let_def)

lemma spaced_snoc:
  "spaced (ts @ [t]) = (spaced ts \<and> list_all (\<lambda>a. a + MIN_REQUEST_INTERVAL \<le> t) ts)"
  by (auto simp: spaced_def sorted_wrt_append list_all_iff)

text \<open>One pass of the loop: the requests grow by at most one, issued at the new
  \<open>lastRequestTime\<close>, which is at least the interval after the old one.\<close>

lemma provider_attempt_step:
  assumes "provider_attempt apiKey a st = (r, st')"
  shows "lastRequestTime st + MIN_REQUEST_INTERVAL \<le> lastRequestTime st'"
    and "requests st' = requests st \<or> requests st' = requests st @ [lastRequestTime st']"
  using assms waitForRateLimit_last[of st "wait_lag a"]
  by (auto simp: provider_attempt_def Let_def getOpenAIClient_def waitForRateLimit_fields issue_request_def
      split: sum.splits completion.splits option.splits if_splits)


lemma grows_refl: "grows st st"
  by (simp add: grows_def spaced_def)

lemma grows_delay: "grows st (delay ms lag st)"
  by (simp add: grows_def spaced_def delay_def)

lemma spaced_append:
  "spaced (xs @ ys) = (spaced xs \<and> spaced ys \<and> (\<forall>a\<in>set xs. \<forall>b\<in>set ys. a + MIN_REQUEST_INTERVAL \<le> b))"
  by (simp add: spaced_def sorted_wrt_append)

lemma grows_trans:
  assumes "grows a b" "grows b c"
  shows "grows a c"
proof -
  from assms(1) obtain n1 where 1: "lastRequestTime a \<le> lastRequestTime b"
    "requests b = requests a @ n1" "spaced n1"
    "list_all (\<lambda>t. lastRequestTime a + MIN_REQUEST_INTERVAL \<le> t \<and> t \<le> lastRequestTime b) n1"
    by (auto simp: grows_def)
  from assms(2) obtain n2 where 2: "lastRequestTime b \<le> lastRequestTime c"
    "requests c = requests b @ n2" "spaced n2"
    "list_all (\<lambda>t. lastRequestTime b + MIN_REQUEST_INTERVAL \<le> t \<and> t \<le> lastRequestTime c) n2"
    by (auto simp: grows_def)
  have "requests c = requests a @ (n1 @ n2)" using 1 2 by simp
  moreover have "spaced (n1 @ n2)"
    using 1 2 by (fastforce simp: spaced_append list_all_iff)
  moreover have "list_all (\<lambda>t. lastRequestTime a + MIN_REQUEST_INTERVAL \<le> t \<and> t \<le> lastRequestTime c) (n1 @ n2)"
    using 1 2 by (fastforce simp: list_all_iff MIN_REQUEST_INTERVAL_def)
  moreover have "lastRequestTime a \<le> lastRequestTime c" using 1 2 by simp
  ultimately show ?thesis unfolding grows_def by blast
qed

lemma grows_rate_inv: "rate_inv st \<Longrightarrow> grows st st' \<Longrightarrow> rate_inv st'"
  by (fastforce simp: rate_inv_def grows_def spaced_append list_all_iff)

lemma provider_attempt_grows:
  assumes "provider_attempt apiKey a st = (r, st')"
  shows "grows st st'"
proof -
  note s = provider_attempt_step[OF assms]
  from s(2) show ?thesis
  proof
    assume "requests st' = requests st"
    with s(1) show ?thesis by (simp add: grows_def spaced_def MIN_REQUEST_INTERVAL_def)
  next
    assume "requests st' = requests st @ [lastRequestTime st']"
    with s(1) show ?thesis by (simp add: grows_def spaced_def MIN_REQUEST_INTERVAL_def)
  qed
qed

lemma generate_loop_grows:
  "generate_loop apiKey env retries lastError st = (r, st') \<Longrightarrow> grows st st'"
proof (induction apiKey env retries lastError st arbitrary: r st' rule: generate_loop.induct)
  case (1 apiKey env retries lastError st)
  show ?case
  proof (cases "retries < MAX_RETRIES")
    case False
    with "1.prems" show ?thesis by (simp add: generate_loop.simps grows_refl)
  next
    case True
    obtain x st1 where pa: "provider_attempt apiKey (env retries) st = (x, st1)"
      by (cases "provider_attempt apiKey (env retries) st")
    note g1 = provider_attempt_grows[OF pa]
    show ?thesis
    proof (cases x)
      case (Inr code)
      with "1.prems" True pa g1 show ?thesis by (simp add: generate_loop.simps)
    next
      case (Inl e)
      show ?thesis
      proof (cases "isRetryable (error_message e)")
        case False
        with "1.prems" True pa g1 Inl show ?thesis by (simp add: generate_loop.simps Let_def)
      next
        case r: True
        show ?thesis
        proof (cases "retries + 1 < MAX_RETRIES")
          case t: True
          let ?d = "delay (RETRY_DELAY * int (retries + 1)) (backoff_lag (env retries)) st1"
          from "1.prems" True pa Inl r t
          have "generate_loop apiKey env (retries + 1) (Some (error_message e)) ?d = (r, st')"
            by (simp add: generate_loop.simps[of _ _ retries] Let_def)
          from "1.IH"(1)[OF True pa[symmetric] Inl refl _ t this] r
          have "grows ?d st'" by simp
          with g1 grows_delay[of st1] show ?thesis by (blast intro: grows_trans)
        next
          case f: False
          from "1.prems" True pa Inl r f
          have "generate_loop apiKey env (retries + 1) (Some (error_message e)) st1 = (r, st')"
            by (simp add: generate_loop.simps[of _ _ retries] Let_def)
          from "1.IH"(2)[OF True pa[symmetric] Inl refl _ f this] r
          have "grows st1 st'" by simp
          with g1 show ?thesis by (blast intro: grows_trans)
        qed
      qed
    qed
  qed
qed

lemma provider_attempt_rejects:
  assumes "key_ok apiKey st" "settles a = Rejects e"
  shows "\<exists>st'. provider_attempt apiKey a st = (Inl e, st') \<and> key_ok apiKey st'"
  using assms
  by (auto simp: provider_attempt_def Let_def getOpenAIClient_def key_ok_def waitForRateLimit_fields
      issue_request_def)

lemma key_ok_delay: "key_ok apiKey (delay ms lag st) = key_ok apiKey st"
  by (simp add: key_ok_def delay_def)

lemma generate_loop_retry:
  assumes "key_ok apiKey st" "settles (env retries) = Rejects (Err m)" "isRetryable m"
    "retries < MAX_RETRIES"
  shows "\<exists>st'. key_ok apiKey st' \<and>
    generate_loop apiKey env retries lastError st = generate_loop apiKey env (retries + 1) (Some m) st'"
proof -
  from provider_attempt_rejects[OF assms(1,2)] obtain st1
    where 1: "provider_attempt apiKey (env retries) st = (Inl (Err m), st1)" "key_ok apiKey st1"
    by blast
  show ?thesis
  proof (cases "retries + 1 < MAX_RETRIES")
    case True
    with 1 assms(3,4) have "generate_loop apiKey env retries lastError st =
      generate_loop apiKey env (retries + 1) (Some m)
        (delay (RETRY_DELAY * int (retries + 1)) (backoff_lag (env retries)) st1)"
      by (simp add: generate_loop.simps[of _ _ retries] error_message_def)
    with 1(2) show ?thesis by (metis key_ok_delay)
  next
    case False
    with 1 assms(3,4) have "generate_loop apiKey env retries lastError st =
      generate_loop apiKey env (retries + 1) (Some m) st1"
      by (simp add: generate_loop.simps[of _ _ retries] error_message_def)
    with 1(2) show ?thesis by blast
  qed
qed

lemma generate_loop_v2_retry:
  assumes "key_ok apiKey st" "settles (env retries) = Rejects (Err m)" "isRetryable m"
    "retries < MAX_RETRIES"
  shows "\<exists>st'. key_ok apiKey st' \<and>
    generate_loop_v2 apiKey env prompt style retries lastError st
    = generate_loop_v2 apiKey env prompt style (retries + 1) (Some m) st'"
proof -
  from provider_attempt_rejects[OF assms(1,2)] obtain st1
    where 1: "provider_attempt apiKey (env retries) st = (Inl (Err m), st1)" "key_ok apiKey st1"
    by blast
  show ?thesis
  proof (cases "retries + 1 < MAX_RETRIES")
    case True
    with 1 assms(3,4) have "generate_loop_v2 apiKey env prompt style retries lastError st =
      generate_loop_v2 apiKey env prompt style (retries + 1) (Some m)
        (delay (RETRY_DELAY * int (retries + 1)) (backoff_lag (env retries)) st1)"
      by (simp add: generate_loop_v2.simps[of _ _ _ _ retries] error_message_def)
    with 1(2) show ?thesis by (metis key_ok_delay)
  next
    case False
    with 1 assms(3,4) have "generate_loop_v2 apiKey env prompt style retries lastError st =
      generate_loop_v2 apiKey env prompt style (retries + 1) (Some m) st1"
      by (simp add: generate_loop_v2.simps[of _ _ _ _ retries] error_message_def)
    with 1(2) show ?thesis by blast
  qed
qed

lemma generate_loop_exhausted:
  "m \<noteq> [] \<Longrightarrow> fst (generate_loop apiKey env 3 (Some m) st) = \<lparr>html = [], error = Some m\<rparr>"
  by (simp add: generate_loop.simps[of _ _ 3] MAX_RETRIES_def or_else_def)

lemma generate_loop_v2_exhausted:
  "m \<noteq> [] \<Longrightarrow> fst (generate_loop_v2 apiKey env prompt style 3 (Some m) st)
     = \<lparr>html = getFallbackTemplate_v2 prompt style, error = Some m, css = []\<rparr>"
  by (simp add: generate_loop_v2.simps[of _ _ _ _ 3] MAX_RETRIES_def or_else_def)

lemma generate_loop_v2_html:
  "html (fst (generate_loop_v2 apiKey env prompt style retries lastError st)) \<noteq> []"
proof (induction apiKey env prompt style retries lastError st rule: generate_loop_v2.induct)
  case (1 apiKey env prompt style retries lastError st)
  show ?case
  proof (cases "retries < MAX_RETRIES")
    case False
    then show ?thesis
      by (simp add: generate_loop_v2.simps[of _ _ _ _ retries] getFallbackTemplate_v2_def
          getFallbackTemplate_nonempty)
  next
    case True
    obtain x st1 where pa: "provider_attempt apiKey (env retries) st = (x, st1)"
      by (cases "provider_attempt apiKey (env retries) st")
    show ?thesis
    proof (cases x)
      case (Inr code)
      with pa have "code \<noteq> []"
        by (auto simp: provider_attempt_def Let_def
            split: sum.splits completion.splits option.splits if_splits)
      with True pa Inr show ?thesis by (simp add: generate_loop_v2.simps[of _ _ _ _ retries])
    next
      case (Inl e)
      with True pa "1.IH"(1)[OF True pa[symmetric] Inl refl] "1.IH"(2)[OF True pa[symmetric] Inl refl]
      show ?thesis
        by (simp add: generate_loop_v2.simps[of _ _ _ _ retries] Let_def
            getFallbackTemplate_v2_def getFallbackTemplate_nonempty)
    qed
  qed
qed


text \<open>Three retryable rejections in a row use up the retries of either loop.\<close>

lemma generate_loop_three_failures:
  assumes k: "key_ok apiKey st"
    and s: "settles (env 0) = Rejects (Err m0)" "settles (env 1) = Rejects (Err m1)"
      "settles (env 2) = Rejects (Err m2)"
    and r: "isRetryable m0" "isRetryable m1" "isRetryable m2"
  shows "fst (generate_loop apiKey env 0 None st) = \<lparr>html = [], error = Some m2\<rparr>"
proof -
  have lt: "0 < MAX_RETRIES" "1 < MAX_RETRIES" "2 < MAX_RETRIES"
    by (simp_all add: MAX_RETRIES_def)
  have "\<exists>st1. key_ok apiKey st1 \<and>
      generate_loop apiKey env 0 None st = generate_loop apiKey env 1 (Some m0) st1"
    using generate_loop_retry[where env = env and retries = 0 and m = m0 and lastError = None,
        OF k s(1) r(1) lt(1)]
    by simp
  then obtain st1 where 1: "key_ok apiKey st1"
    "generate_loop apiKey env 0 None st = generate_loop apiKey env 1 (Some m0) st1"
    by blast
  have "\<exists>st2. key_ok apiKey st2 \<and>
      generate_loop apiKey env 1 (Some m0) st1 = generate_loop apiKey env 2 (Some m1) st2"
    using generate_loop_retry[where env = env and retries = 1 and m = m1 and lastError = "Some m0",
        OF 1(1) s(2) r(2) lt(2)]
    by (simp add: numeral_2_eq_2)
  then obtain st2 where 2: "key_ok apiKey st2"
    "generate_loop apiKey env 1 (Some m0) st1 = generate_loop apiKey env 2 (Some m1) st2"
    by blast
  have "\<exists>st3. key_ok apiKey st3 \<and>
      generate_loop apiKey env 2 (Some m1) st2 = generate_loop apiKey env 3 (Some m2) st3"
    using generate_loop_retry[where env = env and retries = 2 and m = m2 and lastError = "Some m1",
        OF 2(1) s(3) r(3) lt(3)]
    by (simp add: numeral_2_eq_2 numeral_3_eq_3)
  then obtain st3 where 3: "key_ok apiKey st3"
    "generate_loop apiKey env 2 (Some m1) st2 = generate_loop apiKey env 3 (Some m2) st3"
    by blast
  show ?thesis
    unfolding 1(2) 2(2) 3(2)
    by (rule generate_loop_exhausted[OF isRetryable_nonempty[OF r(3)]])
qed

lemma generate_loop_v2_three_failures:
  assumes k: "key_ok apiKey st"
    and s: "settles (env 0) = Rejects (Err m0)" "settles (env 1) = Rejects (Err m1)"
      "settles (env 2) = Rejects (Err m2)"
    and r: "isRetryable m0" "isRetryable m1" "isRetryable m2"
  shows "fst (generate_loop_v2 apiKey env prompt style 0 None st)
     = \<lparr>html = getFallbackTemplate_v2 prompt style, error = Some m2, css = []\<rparr>"
proof -
  have lt: "0 < MAX_RETRIES" "1 < MAX_RETRIES" "2 < MAX_RETRIES"
    by (simp_all add: MAX_RETRIES_def)
  have "\<exists>st1. key_ok apiKey st1 \<and>
      generate_loop_v2 apiKey env prompt style 0 None st
      = generate_loop_v2 apiKey env prompt style 1 (Some m0) st1"
    using generate_loop_v2_retry[where env = env and retries = 0 and m = m0 and lastError = None
        and prompt = prompt and style = style, OF k s(1) r(1) lt(1)]
    by simp
  then obtain st1 where 1: "key_ok apiKey st1"
    "generate_loop_v2 apiKey env prompt style 0 None st
     = generate_loop_v2 apiKey env prompt style 1 (Some m0) st1"
    by blast
  have "\<exists>st2. key_ok apiKey st2 \<and>
      generate_loop_v2 apiKey env prompt style 1 (Some m0) st1
      = generate_loop_v2 apiKey env prompt style 2 (Some m1) st2"
    using generate_loop_v2_retry[where env = env and retries = 1 and m = m1 and lastError = "Some m0"
        and prompt = prompt and style = style, OF 1(1) s(2) r(2) lt(2)]
    by (simp add: numeral_2_eq_2)
  then obtain st2 where 2: "key_ok apiKey st2"
    "generate_loop_v2 apiKey env prompt style 1 (Some m0) st1
     = generate_loop_v2 apiKey env prompt style 2 (Some m1) st2"
    by blast
  have "\<exists>st3. key_ok apiKey st3 \<and>
      generate_loop_v2 apiKey env prompt style 2 (Some m1) st2
      = generate_loop_v2 apiKey env prompt style 3 (Some m2) st3"
    using generate_loop_v2_retry[where env = env and retries = 2 and m = m2 and lastError = "Some m1"
        and prompt = prompt and style = style, OF 2(1) s(3) r(3) lt(3)]
    by (simp add: numeral_2_eq_2 numeral_3_eq_3)
  then obtain st3 where 3: "key_ok apiKey st3"
    "generate_loop_v2 apiKey env prompt style 2 (Some m1) st2
     = generate_loop_v2 apiKey env prompt style 3 (Some m2) st3"
    by blast
  show ?thesis
    unfolding 1(2) 2(2) 3(2)
    by (rule generate_loop_v2_exhausted[OF isRetryable_nonempty[OF r(3)]])
qed

section \<open>Facts about the scraper\<close>

lemma mapM_opt_Some:
  "list_all (\<lambda>x. f x \<noteq> None) xs \<Longrightarrow> mapM_opt f xs = Some (map (\<lambda>x. the (f x)) xs)"
  by (induction xs) auto

lemma fetchExternalStylesheet_returns:
  "import_depth_le P web baseUrl d styleUrl \<Longrightarrow> fetchExternalStylesheet P web styleUrl baseUrl \<noteq> None"
proof (induction d arbitrary: styleUrl)
  case 0
  then show ?case
    by (subst fetchExternalStylesheet.simps)
       (auto split: option.splits fetch_result.splits if_splits)
next
  case (Suc d)
  show ?case
  proof (cases "if startsWith styleUrl ''http'' then Some styleUrl
            else map_option href (URL_new P styleUrl (Some baseUrl))")
    case None
    then show ?thesis by (subst fetchExternalStylesheet.simps) simp
  next
    case (Some fullUrl)
    show ?thesis
    proof (cases "web fullUrl")
      case (Failed t)
      with Some show ?thesis by (subst fetchExternalStylesheet.simps) simp
    next
      case (Response status sheet)
      show ?thesis
      proof (cases "\<not> response_ok status \<or> match_all import_rule_at sheet = []")
        case True
        with Some Response show ?thesis by (subst fetchExternalStylesheet.simps) auto
      next
        case False
        with Suc.prems Some Response
        have "list_all (import_depth_le P web baseUrl d) (importUrls sheet)" by simp
        then have "list_all (\<lambda>v. fetchExternalStylesheet P web v baseUrl \<noteq> None) (importUrls sheet)"
          using Suc.IH by (simp add: list_all_iff)
        from mapM_opt_Some[OF this] False Some Response show ?thesis
          by (subst fetchExternalStylesheet.simps) simp
      qed
    qed
  qed
qed

lemma cyclic_diverges:
  "fetchExternalStylesheet P cyclic_web ''https://shop.example/a.css'' baseUrl = None"
proof (cases "fetchExternalStylesheet P cyclic_web ''https://shop.example/a.css'' baseUrl")
  case (Some y)
  define Q where "Q = (\<lambda>(P::platform) (web::string \<Rightarrow> fetch_result) (styleUrl::string) (baseUrl::string) (y::string).
     \<not> (web = cyclic_web \<and> styleUrl = ''https://shop.example/a.css''))"
  have iu: "importUrls cyclic_sheet = [''https://shop.example/a.css'']"
    by code_simp
  have mn: "match_all import_rule_at cyclic_sheet \<noteq> []"
    by code_simp
  have "Q P cyclic_web ''https://shop.example/a.css'' baseUrl y"
  proof (rule fetchExternalStylesheet.raw_induct[where P = Q, OF _ Some])
    fix f and P :: platform and web styleUrl baseUrl y
    assume IH: "\<And>P web styleUrl baseUrl y. f P web styleUrl baseUrl = Some y \<Longrightarrow> Q P web styleUrl baseUrl y"
      and st: "(case (if startsWith styleUrl ''http'' then Some styleUrl
            else map_option href (URL_new P styleUrl (Some baseUrl))) of
        None \<Rightarrow> Some []
      | Some fullUrl \<Rightarrow>
          (case web fullUrl of
             Failed t \<Rightarrow> Some []
           | Response status sheet \<Rightarrow>
               if \<not> response_ok status then Some []
               else if match_all import_rule_at sheet = [] then Some sheet
               else Option.bind
                      (mapM_opt (\<lambda>importUrl. f P web importUrl baseUrl) (importUrls sheet))
                      (\<lambda>importedStyles. Some (join ''\<newline>'' (sheet # importedStyles))))) = Some y"
    show "Q P web styleUrl baseUrl y"
      unfolding Q_def
    proof
      assume a: "web = cyclic_web \<and> styleUrl = ''https://shop.example/a.css''"
      with st obtain z where "f P web ''https://shop.example/a.css'' baseUrl = Some z"
        by (auto simp: cyclic_web_def response_ok_def iu mn Option.bind_eq_Some_conv)
      from IH[OF this] a show False by (simp add: Q_def)
    qed
  qed
  then show ?thesis by (simp add: Q_def)
qed simp

lemma makeScrapingBeeRequest_unroll:
  assumes "api_key env \<noteq> None" "api_key env \<noteq> Some []" "validateUrl P (trim u)"
  shows "makeScrapingBeeRequest P env u withJs n =
     (case request_body P env (trim u) n of
        None \<Rightarrow> None
      | Some (Inr page) \<Rightarrow> Some (Inr page, [Fetch n])
      | Some (Inl t) \<Rightarrow>
          if t = Err ''API_LIMIT_REACHED'' then Some (Inl t, [Fetch n])
          else if n < 2 then
            (case makeScrapingBeeRequest P env u withJs (Suc n) of
               None \<Rightarrow> None
             | Some (r, tr) \<Rightarrow> Some (r, Fetch n # Sleep (2000 * Suc n) # tr))
          else Some (Inl t, [Fetch n]))"
  unfolding Suc_eq_plus1 by (subst makeScrapingBeeRequest.simps) (simp add: assms)



lemma findImages_length: "length (findImages P doc) \<le> 5"
  by (simp add: findImages_def Let_def)

lemma FALLBACK_IMAGES_length: "length FALLBACK_IMAGES = 5"
  by (simp add: FALLBACK_IMAGES_def)

lemma finalImages_length: "length (finalImages P u doc) = 5"
proof -
  let ?found = "filter (\<lambda>i. i \<noteq> []) (map (resolveUrl (URL_new P) u) (findImages P doc))"
  have "length ?found \<le> length (findImages P doc)"
    by (metis length_filter_le length_map)
  then have "length ?found \<le> 5" using findImages_length[of P doc] by linarith
  then show ?thesis by (simp add: finalImages_def Let_def FALLBACK_IMAGES_length)
qed






lemma insert_asset_logs: "scraping_logs (insert_asset projectId ty x d) = scraping_logs d"
  by (simp add: insert_asset_def)

lemma foldl_insert_asset_logs:
  "scraping_logs (foldl (\<lambda>acc r. case r of None \<Rightarrow> acc | Some s \<Rightarrow> insert_asset projectId ty s acc) d rs)
     = scraping_logs d"
  by (induction rs arbitrary: d) (auto simp: insert_asset_logs split: option.splits)

lemma storeProjectAssets_logs:
  "scraping_logs (snd (storeProjectAssets P env projectId imgs lg d)) = scraping_logs d"
  by (simp add: storeProjectAssets_def Let_def foldl_insert_asset_logs insert_asset_logs
      split: option.splits)



lemma scrape_success_fields:
  "colors (fst (scrape_success P env u projectId doc logoUrl pa d))
     = Some (if extractColors doc \<noteq> [] then extractColors doc else the (colors DEFAULT_STYLE))"
  "fonts (fst (scrape_success P env u projectId doc logoUrl pa d))
     = Some (if extractFonts doc \<noteq> [] then extractFonts doc else the (fonts DEFAULT_STYLE))"
  "images (fst (scrape_success P env u projectId doc logoUrl pa d)) = Some (finalImages P u doc)"
  "logo (fst (scrape_success P env u projectId doc logoUrl pa d)) = resolved_logo P u logoUrl"
  by (simp_all add: scrape_success_def Let_def)

lemma scrape_success_profile_independent:
  "fst (scrape_success P env u projectId doc logoUrl pa d)
   = fst (scrape_success P env u projectId doc logoUrl pa' d')"
  by (simp add: scrape_success_def Let_def)

lemma scrape_success_log:
  "\<exists>entry. snd (scrape_success P env u projectId doc logoUrl pa d)
       = d\<lparr>scraping_logs := scraping_logs d @ [entry]\<rparr>
     \<and> success entry = True \<and> using_default_styles entry = False
     \<and> entry\<lparr>assets_found := x\<rparr>
       = \<lparr>log_project_id = projectId, log_url = u, success = True, assets_found = x, errors = None,
          duration_ms = end_time env - start_time env, log_retries = 0, using_default_styles = False\<rparr>"
  by (force simp: scrape_success_def logScrapingResult_def Let_def)





lemma storage_FALLBACK_IMAGES_length: "length storage_FALLBACK_IMAGES = 2"
  by (simp add: storage_FALLBACK_IMAGES_def)


lemma add_colors_none: "match_all color_at text = [] \<Longrightarrow> add_colors found text = found"
  by (simp add: add_colors_def)

lemma foldl_unchanged: "(\<And>acc x. x \<in> set xs \<Longrightarrow> f acc x = acc) \<Longrightarrow> foldl f a xs = a"
  by (induction xs arbitrary: a) auto

text \<open>Without a color literal in any \<open>style\<close> attribute or \<open>style\<close> block, \<open>extractColors\<close>
  returns the empty list, for every document.\<close>

lemma extractColors_no_literal:
  assumes "\<And>el s. el \<in> set (querySelectorAll doc ''[style], [class]'') \<Longrightarrow>
      getAttribute el ''style'' = Some s \<Longrightarrow> match_all color_at s = []"
    and "\<And>el. el \<in> set (querySelectorAll doc ''style'') \<Longrightarrow> match_all color_at (textContent el) = []"
  shows "extractColors doc = []"
proof -
  have 1: "foldl (\<lambda>found el.
                       case getAttribute el ''style'' of
                         None \<Rightarrow> found
                       | Some style \<Rightarrow> if style = [] then found else add_colors found style)
                     [] (querySelectorAll doc ''[style], [class]'') = []"
    by (rule foldl_unchanged) (auto simp: add_colors_none assms(1) split: option.splits)
  have 2: "foldl (\<lambda>found styleEl. add_colors found (textContent styleEl))
                     [] (querySelectorAll doc ''style'') = []"
    by (rule foldl_unchanged) (simp add: add_colors_none assms(2))
  show ?thesis by (simp add: extractColors_def Let_def or_array_def 1 2)
qed

lemma scrape_success_default_colors:
  "extractColors doc = [] \<Longrightarrow>
   colors (fst (scrape_success P env u projectId doc logoUrl pa d)) = colors DEFAULT_STYLE
   \<and> (\<exists>entry. scraping_logs (snd (scrape_success P env u projectId doc logoUrl pa d))
          = scraping_logs d @ [entry] \<and> af_colors (assets_found entry) = 0)"
  by (force simp: scrape_success_def Let_def logScrapingResult_def DEFAULT_STYLE_def)
section \<open>Claims\<close>

text \<open>
  C1, as stated, fails for the current file: after three rate-limit rejections its
  \<open>generateLandingPage\<close> returns the empty string as \<open>html\<close>, not the fallback template.
\<close>

theorem generateLandingPage_failure_html_empty:
  "html (fst (generateLandingPage (Some ''sk-key'') rate_limited_env ''p'' None fresh_state)) = []
   \<and> html (fst (generateLandingPage (Some ''sk-key'') rate_limited_env ''p'' None fresh_state))
       \<noteq> getFallbackTemplate None"
proof -
  have "html (fst (generateLandingPage (Some ''sk-key'') rate_limited_env ''p'' None fresh_state)) = []"
    by code_simp
  then show ?thesis by (simp add: getFallbackTemplate_nonempty[symmetric])
qed

text \<open>
  C1, amended. When the client can be had and the first three requests reject with
  retryable errors, both variants return (nothing is thrown) with the third message as
  \<open>error\<close>. The older variant's \<open>html\<close> is the fallback template built from the style
  profile, which is never empty; the current variant's \<open>html\<close> is the empty string, and
  the fallback template is left to the caller.
\<close>

theorem three_retryable_failures:
  assumes "key_ok apiKey st"
    and "\<forall>i<3. settles (env i) = Rejects (Err (m i)) \<and> isRetryable (m i)"
  shows "fst (generateLandingPage apiKey env prompt style st) = \<lparr>html = [], error = Some (m 2)\<rparr>
    \<and> fst (generateLandingPage_v2 apiKey env prompt style st)
        = \<lparr>html = getFallbackTemplate_v2 prompt style, error = Some (m 2), css = []\<rparr>
    \<and> getFallbackTemplate_v2 prompt style \<noteq> []
    \<and> html (fst (generateLandingPage_v2 apiKey env prompt style st)) \<noteq> []"
proof -
  have s: "settles (env 0) = Rejects (Err (m 0))" "settles (env 1) = Rejects (Err (m 1))"
    "settles (env 2) = Rejects (Err (m 2))"
    and r: "isRetryable (m 0)" "isRetryable (m 1)" "isRetryable (m 2)"
    using assms(2) by simp_all
  have a: "fst (generateLandingPage apiKey env prompt style st) = \<lparr>html = [], error = Some (m 2)\<rparr>"
    unfolding generateLandingPage_def by (rule generate_loop_three_failures[OF assms(1) s r])
  have b: "fst (generateLandingPage_v2 apiKey env prompt style st)
        = \<lparr>html = getFallbackTemplate_v2 prompt style, error = Some (m 2), css = []\<rparr>"
    unfolding generateLandingPage_v2_def by (rule generate_loop_v2_three_failures[OF assms(1) s r])
  have c: "getFallbackTemplate_v2 prompt style \<noteq> []"
    by (simp add: getFallbackTemplate_v2_def getFallbackTemplate_nonempty)
  from a b c show ?thesis by simp
qed

theorem three_retryable_failures_witness:
  "fst (generateLandingPage (Some ''sk-key'') rate_limited_env ''p'' None fresh_state)
     = \<lparr>html = [], error = Some ''rate_limit_exceeded''\<rparr>
   \<and> fst (generateLandingPage_v2 (Some ''sk-key'') rate_limited_env ''p'' None fresh_state)
     = \<lparr>html = getFallbackTemplate_v2 ''p'' None, error = Some ''rate_limit_exceeded'', css = []\<rparr>
   \<and> getFallbackTemplate_v2 ''p'' None \<noteq> []
   \<and> html (fst (generateLandingPage_v2 (Some ''sk-key'') rate_limited_env ''p'' None fresh_state)) \<noteq> []"
proof -
  have k: "key_ok (Some ''sk-key'') fresh_state" by (simp add: key_ok_def)
  have e: "\<forall>i<3. settles (rate_limited_env i) = Rejects (Err ((\<lambda>_. ''rate_limit_exceeded'') i))
      \<and> isRetryable ((\<lambda>_. ''rate_limit_exceeded'') i)"
    by (simp add: rate_limited_env_def isRetryable_def)
  from three_retryable_failures[OF k e, of "''p''" None] show ?thesis by simp
qed

text \<open>
  C2. Whenever the rendering fetch fails with the quota-exhausted condition,
  \<open>scrapeWebsite\<close> returns exactly \<open>DEFAULT_STYLE\<close> and writes one log entry, whose
  \<open>success\<close> is false and whose \<open>using_default_styles\<close> is true.
\<close>

theorem scrapeWebsite_quota_exhausted_default_profile:
  assumes "makeScrapingBeeRequest P env u True 0 = Some (Inl quota_exhausted, tr)"
  shows "\<exists>entry. scrapeWebsite P env u projectId brand d
           = Some (DEFAULT_STYLE, d\<lparr>scraping_logs := scraping_logs d @ [entry]\<rparr>)
         \<and> success entry = False \<and> using_default_styles entry = True"
proof -
  obtain entry where e: "scrape_failure env u projectId quota_exhausted d
      = (DEFAULT_STYLE, d\<lparr>scraping_logs := scraping_logs d @ [entry]\<rparr>)"
    "success entry = False" "using_default_styles entry = True"
    by (simp add: scrape_failure_def quota_exhausted_def logScrapingResult_def Let_def)
  from assms e show ?thesis by (auto simp: scrapeWebsite_def)
qed


theorem scrapeWebsite_quota_exhausted_witness:
  "\<exists>entry. scrapeWebsite sample_platform quota_env ''https://shop.example/'' ''p1'' None empty_db
           = Some (DEFAULT_STYLE, empty_db\<lparr>scraping_logs := scraping_logs empty_db @ [entry]\<rparr>)
         \<and> success entry = False \<and> using_default_styles entry = True"
proof -
  have "makeScrapingBeeRequest sample_platform quota_env ''https://shop.example/'' True 0
     = Some (Inl quota_exhausted, [Fetch 0])"
    by code_simp
  then show ?thesis by (rule scrapeWebsite_quota_exhausted_default_profile)
qed





text \<open>
  C4. With the API key configured and a valid URL (otherwise the error is thrown before any
  fetch): a quota-exhausted failure of a pass is thrown at once, with no further fetch;
  after any other failure the request is made again, at most twice, 2000 ms times the
  attempt number after the failure; the error of the third pass is the one thrown. In every
  run that returns, the fetches and waits are one of the three traces.
\<close>

theorem makeScrapingBeeRequest_retry_policy:
  assumes "request_ready P env u"
  shows
    "(request_body P env (trim u) 0 = Some (Inl quota_exhausted)
        \<longrightarrow> makeScrapingBeeRequest P env u withJs 0 = Some (Inl quota_exhausted, [Fetch 0]))
     \<and> (request_body P env (trim u) 0 = Some (Inl t0) \<and> t0 \<noteq> quota_exhausted
        \<and> request_body P env (trim u) 1 = Some (Inl quota_exhausted)
        \<longrightarrow> makeScrapingBeeRequest P env u withJs 0
            = Some (Inl quota_exhausted, [Fetch 0, Sleep 2000, Fetch 1]))
     \<and> (request_body P env (trim u) 0 = Some (Inl t0) \<and> t0 \<noteq> quota_exhausted
        \<and> request_body P env (trim u) 1 = Some (Inl t1) \<and> t1 \<noteq> quota_exhausted
        \<and> request_body P env (trim u) 2 = Some (Inl t2)
        \<longrightarrow> makeScrapingBeeRequest P env u withJs 0
            = Some (Inl t2, [Fetch 0, Sleep 2000, Fetch 1, Sleep 4000, Fetch 2]))
     \<and> (\<forall>r tr. makeScrapingBeeRequest P env u withJs 0 = Some (r, tr)
        \<longrightarrow> tr \<in> set [[Fetch 0], [Fetch 0, Sleep 2000, Fetch 1],
                        [Fetch 0, Sleep 2000, Fetch 1, Sleep 4000, Fetch 2]])"
proof -
  from assms have k: "api_key env \<noteq> None" "api_key env \<noteq> Some []" "validateUrl P (trim u)"
    by (simp_all add: request_ready_def)
  note e0 = makeScrapingBeeRequest_unroll[OF k, of withJs 0]
    and e1 = makeScrapingBeeRequest_unroll[OF k, of withJs "Suc 0"]
    and e2 = makeScrapingBeeRequest_unroll[OF k, of withJs "Suc (Suc 0)"]
  have a: "request_body P env (trim u) 0 = Some (Inl quota_exhausted)
        \<longrightarrow> makeScrapingBeeRequest P env u withJs 0 = Some (Inl quota_exhausted, [Fetch 0])"
    by (simp add: e0 quota_exhausted_def)
  have b: "request_body P env (trim u) 0 = Some (Inl t0) \<and> t0 \<noteq> quota_exhausted
        \<and> request_body P env (trim u) 1 = Some (Inl quota_exhausted)
        \<longrightarrow> makeScrapingBeeRequest P env u withJs 0
            = Some (Inl quota_exhausted, [Fetch 0, Sleep 2000, Fetch 1])"
    by (simp add: e0 e1 quota_exhausted_def)
  have c: "request_body P env (trim u) 0 = Some (Inl t0) \<and> t0 \<noteq> quota_exhausted
        \<and> request_body P env (trim u) 1 = Some (Inl t1) \<and> t1 \<noteq> quota_exhausted
        \<and> request_body P env (trim u) 2 = Some (Inl t2)
        \<longrightarrow> makeScrapingBeeRequest P env u withJs 0
            = Some (Inl t2, [Fetch 0, Sleep 2000, Fetch 1, Sleep 4000, Fetch 2])"
    by (simp add: e0 e1 e2 quota_exhausted_def numeral_2_eq_2)
  have d: "\<forall>r tr. makeScrapingBeeRequest P env u withJs 0 = Some (r, tr)
        \<longrightarrow> tr \<in> set [[Fetch 0], [Fetch 0, Sleep 2000, Fetch 1],
                        [Fetch 0, Sleep 2000, Fetch 1, Sleep 4000, Fetch 2]]"
    by (auto simp: e0 e1 e2 numeral_2_eq_2 split: option.splits sum.splits if_splits)
  from a b c d show ?thesis by blast
qed


theorem makeScrapingBeeRequest_retry_policy_witness:
  "makeScrapingBeeRequest sample_platform failing_env ''https://shop.example/'' True 0
     = Some (Inl (Err ''ScrapingBee API error: 500 - upstream error''),
             [Fetch 0, Sleep 2000, Fetch 1, Sleep 4000, Fetch 2])
   \<and> makeScrapingBeeRequest sample_platform quota_env ''https://shop.example/'' True 0
     = Some (Inl quota_exhausted, [Fetch 0])"
proof -
  define t where "t = Err ''ScrapingBee API error: 500 - upstream error''"
  have r1: "request_ready sample_platform failing_env ''https://shop.example/''" by code_simp
  have r2: "request_ready sample_platform quota_env ''https://shop.example/''" by code_simp
  have b: "request_body sample_platform failing_env (trim ''https://shop.example/'') 0 = Some (Inl t)"
    "request_body sample_platform failing_env (trim ''https://shop.example/'') 1 = Some (Inl t)"
    "request_body sample_platform failing_env (trim ''https://shop.example/'') 2 = Some (Inl t)"
    unfolding t_def by code_simp+
  have n: "t \<noteq> quota_exhausted" unfolding t_def by code_simp
  have q: "request_body sample_platform quota_env (trim ''https://shop.example/'') 0 = Some (Inl quota_exhausted)"
    by code_simp
  from makeScrapingBeeRequest_retry_policy[OF r1, where ?t0.0 = t and ?t1.0 = t and ?t2.0 = t and withJs = True] b n
  have 1: "makeScrapingBeeRequest sample_platform failing_env ''https://shop.example/'' True 0
     = Some (Inl t, [Fetch 0, Sleep 2000, Fetch 1, Sleep 4000, Fetch 2])" by blast
  from makeScrapingBeeRequest_retry_policy[OF r2, where ?t0.0 = t and ?t1.0 = t and ?t2.0 = t and withJs = True] q
  have 2: "makeScrapingBeeRequest sample_platform quota_env ''https://shop.example/'' True 0
     = Some (Inl quota_exhausted, [Fetch 0])" by blast
  from 1 2 show ?thesis by (simp add: t_def)
qed




text \<open>
  C6 fails on the code. For a document without any color literal \<open>extractColors\<close> returns the
  empty list: the fallback in \<open>Array.from(colors).slice(0, 5) || DEFAULT_STYLE.colors\<close> is never
  taken, since an empty array is truthy; \<open>extractColors_no_literal\<close> shows it for every such
  document. (The default palette reaches the returned profile only through the length test
  in \<open>scrapeWebsite\<close>, and the log entry counts 0 colors: \<open>scrape_success_default_colors\<close>.)
\<close>

theorem extractColors_without_literal_is_empty:
  "extractColors text_only_doc = [] \<and> extractColors text_only_doc \<noteq> the (colors DEFAULT_STYLE)"
  by code_simp

text \<open>
  C7, as stated, fails: the recursion carries no depth, and where every stylesheet imports
  \<open>a.css\<close> again the call for \<open>a.css\<close> never returns.
\<close>

theorem fetchExternalStylesheet_cyclic_import_never_returns:
  "fetchExternalStylesheet sample_platform cyclic_web ''https://shop.example/a.css'' ''https://shop.example/''
   = None"
  by (rule cyclic_diverges)

text \<open>
  C7, amended. \<open>fetchExternalStylesheet\<close> has no depth cap; it returns whenever the nesting of
  \<open>@import\<close> directives below the stylesheet is bounded by some depth.
\<close>

theorem fetchExternalStylesheet_returns_when_imports_bounded:
  assumes "import_depth_le P web baseUrl n styleUrl"
  shows "\<exists>sheet. fetchExternalStylesheet P web styleUrl baseUrl = Some sheet"
  using fetchExternalStylesheet_returns[OF assms] by auto

theorem fetchExternalStylesheet_two_level_witness:
  "\<exists>sheet. fetchExternalStylesheet sample_platform two_level_web ''https://shop.example/a.css''
      ''https://shop.example/'' = Some sheet"
proof -
  have "import_depth_le sample_platform two_level_web ''https://shop.example/'' 1 ''https://shop.example/a.css''"
    by code_simp
  then show ?thesis by (rule fetchExternalStylesheet_returns_when_imports_bounded)
qed

text \<open>
  C8, as stated, fails for two calls issued in the same turn of the event loop while a wait
  is due: one second after a request, both calls read the same \<open>lastRequestTime\<close>, both wait
  19 seconds, and both requests are issued at the same clock reading.
\<close>

theorem overlapping_calls_issue_requests_together:
  "rate_inv busy_state
   \<and> two_calls_in_one_turn (Some ''sk-key'') busy_state \<noteq> None
   \<and> \<not> spaced (requests (the (two_calls_in_one_turn (Some ''sk-key'') busy_state)))"
  by code_simp

text \<open>
  C8, amended. For two generation calls run one after the other (the second is issued after
  the first has returned, any time later), from any state that satisfies the rate-limit
  invariant: all provider requests of the run are at least 20 seconds apart, and every
  request of the second call is issued at least 20 seconds after the \<open>lastRequestTime\<close>
  the first call recorded.
\<close>

theorem rate_limit_back_to_back:
  assumes "rate_inv s0"
    and "generateLandingPage apiKey env1 prompt1 style1 s0 = (r1, s1)"
    and "generateLandingPage apiKey env2 prompt2 style2 (s1\<lparr>clock := clock s1 + int gap\<rparr>) = (r2, s2)"
  shows "spaced (requests s2)
    \<and> take (length (requests s1)) (requests s2) = requests s1
    \<and> list_all (\<lambda>t. lastRequestTime s1 + MIN_REQUEST_INTERVAL \<le> t)
         (drop (length (requests s1)) (requests s2))"
proof -
  let ?s1 = "s1\<lparr>clock := clock s1 + int gap\<rparr>"
  have g1: "grows s0 s1"
    using assms(2) unfolding generateLandingPage_def by (rule generate_loop_grows)
  have g2: "grows ?s1 s2"
    using assms(3) unfolding generateLandingPage_def by (rule generate_loop_grows)
  have i1: "rate_inv s1" using assms(1) g1 by (rule grows_rate_inv)
  then have "rate_inv ?s1" by (simp add: rate_inv_def)
  then have i2: "rate_inv s2" using g2 by (rule grows_rate_inv)
  from g2 obtain new where n: "requests s2 = requests s1 @ new"
    "list_all (\<lambda>t. lastRequestTime s1 + MIN_REQUEST_INTERVAL \<le> t \<and> t \<le> lastRequestTime s2) new"
    by (auto simp: grows_def)
  from n(2) have "list_all (\<lambda>t. lastRequestTime s1 + MIN_REQUEST_INTERVAL \<le> t) new"
    by (simp add: list_all_iff)
  with i2 n(1) show ?thesis by (simp add: rate_inv_def)
qed


theorem rate_limit_back_to_back_witness:
  "spaced (requests \<lparr>clock = 41500, lastRequestTime = 40000, openaiClient = True, requests = [20000, 40000]\<rparr>)
   \<and> take (length [20000::int]) [20000, 40000::int] = [20000]
   \<and> list_all (\<lambda>t. 20000 + MIN_REQUEST_INTERVAL \<le> t) (drop (length [20000::int]) [20000, 40000])"
proof -
  define s1 where "s1 = \<lparr>clock = 21500, lastRequestTime = 20000, openaiClient = True, requests = [20000]\<rparr>"
  define s2 where "s2 = \<lparr>clock = 41500, lastRequestTime = 40000, openaiClient = True, requests = [20000, 40000]\<rparr>"
  have i: "rate_inv fresh_state"
    by (simp add: rate_inv_def spaced_def fresh_state_def)
  have 1: "generateLandingPage (Some ''sk-key'') answering_env ''p'' None fresh_state
      = (\<lparr>html = ''<p>a</p>'', error = None\<rparr>, s1)"
    unfolding s1_def by code_simp
  have 2: "generateLandingPage (Some ''sk-key'') answering_env ''q'' None (s1\<lparr>clock := clock s1 + int 0\<rparr>)
      = (\<lparr>html = ''<p>a</p>'', error = None\<rparr>, s2)"
    unfolding s1_def s2_def by code_simp
  from rate_limit_back_to_back[OF i 1 2] show ?thesis by (simp add: s1_def s2_def)
qed


text \<open>
  C10. On every successful run (the request returns a page and the logo search does not
  throw) the profile's \<open>images\<close> are \<open>finalImages\<close> and its \<open>logo\<close> is the resolved logo URL,
  both computed before \<open>storeProjectAssets\<close> runs. An image the adapter rejects is still in the
  profile, the adapter's two fallback images are never the profile's images, and whatever
  the adapter returns, the profile is the same and the log entry is the same up to its
  \<open>assets_found\<close>.
\<close>

theorem scrape_profile_ignores_stored_assets:
  assumes "makeScrapingBeeRequest P env u True 0 = Some (Inr page, tr)"
    and "findLogo P (parseFromString P page) brand = Inr logoUrl"
  shows "\<exists>style d' entry.
     scrapeWebsite P env u projectId brand d = Some (style, d')
     \<and> images style = Some (finalImages P u (parseFromString P page))
     \<and> logo style = resolved_logo P u logoUrl
     \<and> images style \<noteq> Some storage_FALLBACK_IMAGES
     \<and> (\<forall>i \<in> set (finalImages P u (parseFromString P page)).
           downloadAndStoreImage P env i projectId = None \<longrightarrow> i \<in> set (the (images style)))
     \<and> scraping_logs d' = scraping_logs d @ [entry]
     \<and> (\<forall>pa d1. fst (scrape_success P env u projectId (parseFromString P page) logoUrl pa d1) = style
           \<and> (\<exists>e. scraping_logs (snd (scrape_success P env u projectId (parseFromString P page) logoUrl pa d1))
                     = scraping_logs d1 @ [e]
                  \<and> e\<lparr>assets_found := assets_found entry\<rparr> = entry))"
proof -
  let ?doc = "parseFromString P page"
  obtain pa0 d0 where st: "storeProjectAssets P env projectId (finalImages P u ?doc)
      (resolved_logo P u logoUrl) d = (pa0, d0)"
    by (cases "storeProjectAssets P env projectId (finalImages P u ?doc) (resolved_logo P u logoUrl) d")
  have d0: "scraping_logs d0 = scraping_logs d"
    using storeProjectAssets_logs[of P env projectId "finalImages P u ?doc" "resolved_logo P u logoUrl" d]
    by (simp add: st)
  let ?res = "scrape_success P env u projectId ?doc logoUrl pa0 d0"
  have sw: "scrapeWebsite P env u projectId brand d = Some (fst ?res, snd ?res)"
    using assms st by (simp add: scrapeWebsite_def)
  have i3: "images (fst ?res) = Some (finalImages P u ?doc)" by (rule scrape_success_fields(3))
  have l4: "logo (fst ?res) = resolved_logo P u logoUrl" by (rule scrape_success_fields(4))
  have ne: "images (fst ?res) \<noteq> Some storage_FALLBACK_IMAGES"
    using finalImages_length[of P u ?doc] storage_FALLBACK_IMAGES_length by (auto simp: i3)
  have rej: "\<forall>i \<in> set (finalImages P u ?doc).
           downloadAndStoreImage P env i projectId = None \<longrightarrow> i \<in> set (the (images (fst ?res)))"
    by (simp add: i3)
  define R where "R = (\<lambda>x. \<lparr>log_project_id = projectId, log_url = u, success = True, assets_found = x,
      errors = None, duration_ms = end_time env - start_time env, log_retries = 0,
      using_default_styles = False\<rparr>)"
  have lg: "\<exists>e. snd (scrape_success P env u projectId ?doc logoUrl pa d1)
       = d1\<lparr>scraping_logs := scraping_logs d1 @ [e]\<rparr> \<and> e\<lparr>assets_found := x\<rparr> = R x" for pa d1 x
    using scrape_success_log[of P env u projectId ?doc logoUrl pa d1 x] unfolding R_def by blast
  from lg[of pa0 d0 undefined] obtain entry where
    e0: "snd ?res = d0\<lparr>scraping_logs := scraping_logs d0 @ [entry]\<rparr>" by blast
  have er: "entry\<lparr>assets_found := x\<rparr> = R x" for x
  proof -
    from lg[of pa0 d0 x] obtain e where
      e: "snd ?res = d0\<lparr>scraping_logs := scraping_logs d0 @ [e]\<rparr>" "e\<lparr>assets_found := x\<rparr> = R x"
      by blast
    from e(1) e0 have "scraping_logs (d0\<lparr>scraping_logs := scraping_logs d0 @ [e]\<rparr>)
        = scraping_logs (d0\<lparr>scraping_logs := scraping_logs d0 @ [entry]\<rparr>)" by simp
    then have "e = entry" by simp
    with e(2) show ?thesis by simp
  qed
  have lg0: "scraping_logs (snd ?res) = scraping_logs d @ [entry]" using e0 d0 by simp
  have ind: "fst (scrape_success P env u projectId ?doc logoUrl pa d1) = fst ?res
      \<and> (\<exists>e. scraping_logs (snd (scrape_success P env u projectId ?doc logoUrl pa d1))
                     = scraping_logs d1 @ [e]
             \<and> e\<lparr>assets_found := assets_found entry\<rparr> = entry)" for pa d1
  proof
    show "fst (scrape_success P env u projectId ?doc logoUrl pa d1) = fst ?res"
      by (rule scrape_success_profile_independent)
    from lg[of pa d1 "assets_found entry"] obtain e where
      e: "snd (scrape_success P env u projectId ?doc logoUrl pa d1)
          = d1\<lparr>scraping_logs := scraping_logs d1 @ [e]\<rparr>"
         "e\<lparr>assets_found := assets_found entry\<rparr> = R (assets_found entry)" by blast
    have "entry\<lparr>assets_found := assets_found entry\<rparr> = entry" by simp
    with er[of "assets_found entry"] e(2) have "e\<lparr>assets_found := assets_found entry\<rparr> = entry" by simp
    with e(1) show "\<exists>e. scraping_logs (snd (scrape_success P env u projectId ?doc logoUrl pa d1))
                     = scraping_logs d1 @ [e]
             \<and> e\<lparr>assets_found := assets_found entry\<rparr> = entry" by auto
  qed
  from sw i3 l4 ne rej lg0 ind show ?thesis by blast
qed


theorem scrape_profile_ignores_stored_assets_witness:
  "\<exists>style d'.
     scrapeWebsite sample_platform page_env ''https://shop.example/'' ''p1'' None empty_db = Some (style, d')
     \<and> images style = Some (finalImages sample_platform ''https://shop.example/'' hero_doc)
     \<and> images style \<noteq> Some storage_FALLBACK_IMAGES
     \<and> downloadAndStoreImage sample_platform page_env ''ftp://files.example.com/hero.jpg'' ''p1'' = None
     \<and> ''ftp://files.example.com/hero.jpg'' \<in> set (the (images style))"
proof -
  have 1: "makeScrapingBeeRequest sample_platform page_env ''https://shop.example/'' True 0
      = Some (Inr hero_page, [Fetch 0])"
    by code_simp
  have p: "parseFromString sample_platform hero_page = hero_doc"
    by (simp add: sample_platform_def)
  have 2: "findLogo sample_platform (parseFromString sample_platform hero_page) None = Inr None"
    unfolding p by code_simp
  have r: "downloadAndStoreImage sample_platform page_env ''ftp://files.example.com/hero.jpg'' ''p1'' = None"
    by code_simp
  have m: "''ftp://files.example.com/hero.jpg'' \<in> set (finalImages sample_platform ''https://shop.example/'' hero_doc)"
    by code_simp
  from scrape_profile_ignores_stored_assets[OF 1 2, of "''p1''" empty_db] r m
  show ?thesis unfolding p by auto
qed

end
